theory Spec2Isabelle
  imports Complex_Main "HOL-Library.Word"
begin

section \<open>JavaScript values used by \<^verbatim>\<open>main.js\<close>\<close>

text \<open>
  A JavaScript string is a sequence of UTF-16 code units; \<^verbatim>\<open>charCodeAt\<close>,
  \<^verbatim>\<open>length\<close>, \<^verbatim>\<open>slice\<close> and \<^verbatim>\<open>replaceAll\<close> all work on code units.
  Literals of the source are ASCII and are written through \<open>js_str\<close>.
\<close>

type_synonym jschar = "16 word"
type_synonym jsstring = "jschar list"

definition js_str :: "string \<Rightarrow> jsstring" where
  "js_str s = map (\<lambda>c. of_nat (of_char c)) s"

text \<open>
  The code units \<^verbatim>\<open>String.prototype.trim\<close> strips (ECMAScript WhiteSpace and
  LineTerminator): TAB, LF, VT, FF, CR, SP, NBSP, U+1680, U+2000..U+200A, U+2028, U+2029,
  U+202F, U+205F, U+3000 and U+FEFF.
\<close>

definition js_whitespace :: "jschar \<Rightarrow> bool" where
  "js_whitespace c \<longleftrightarrow>
     c \<in> {0x9, 0xA, 0xB, 0xC, 0xD, 0x20, 0xA0, 0x1680, 0x2000, 0x2001, 0x2002, 0x2003,
          0x2004, 0x2005, 0x2006, 0x2007, 0x2008, 0x2009, 0x200A, 0x2028, 0x2029, 0x202F,
          0x205F, 0x3000, 0xFEFF}"

definition js_trimStart :: "jsstring \<Rightarrow> jsstring" where
  "js_trimStart s = dropWhile js_whitespace s"

definition js_trim :: "jsstring \<Rightarrow> jsstring" where
  "js_trim s = rev (dropWhile js_whitespace (rev (dropWhile js_whitespace s)))"

text \<open>
  \<^verbatim>\<open>s.slice(a, b)\<close> and \<^verbatim>\<open>s.slice(a)\<close> for non-negative indices: out-of-range
  indices are clipped, and \<^verbatim>\<open>a > b\<close> gives the empty string.
\<close>

definition js_slice :: "jsstring \<Rightarrow> nat \<Rightarrow> nat \<Rightarrow> jsstring" where
  "js_slice s a b = take (b - a) (drop a s)"

definition js_slice_from :: "jsstring \<Rightarrow> nat \<Rightarrow> jsstring" where
  "js_slice_from s a = drop a s"

text \<open>
  \<^verbatim>\<open>xs[i]\<close> on an array: \<open>None\<close> is \<^verbatim>\<open>undefined\<close> (any index outside
  \<open>[0, length)\<close>, negative ones included).
\<close>

definition js_index :: "'a list \<Rightarrow> int \<Rightarrow> 'a option" where
  "js_index xs i = (if 0 \<le> i \<and> i < int (length xs) then Some (xs ! nat i) else None)"

text \<open>
  The remainder operator \<^verbatim>\<open>%\<close> on integral numbers: the result takes the sign of the
  dividend (truncated division), unlike HOL's \<open>mod\<close>. JavaScript gives NaN for a zero
  divisor; every use below has a divisor that the surrounding code makes positive, and the
  theorems carry that as a hypothesis.
\<close>

definition js_rem :: "int \<Rightarrow> int \<Rightarrow> int" where
  "js_rem a n = sgn a * (\<bar>a\<bar> mod \<bar>n\<bar>)"

text \<open>\<^verbatim>\<open>x | 0\<close> and the operands of \<^verbatim>\<open><<\<close>: ToInt32, wrap-around into \<open>[-2^31, 2^31)\<close>.\<close>

definition toInt32 :: "int \<Rightarrow> int" where
  "toInt32 x = (x + 2 ^ 31) mod 2 ^ 32 - 2 ^ 31"

section \<open>Project tiles: \<^verbatim>\<open>hashString\<close> and the gradient palette\<close>

text \<open>
  \<^verbatim>\<open>
  function hashString(value) {
      let hash = 0;
      for (let index = 0; index < value.length; index += 1) {
          hash = ((hash << 5) - hash) + value.charCodeAt(index);
          hash |= 0;
      }
      return Math.abs(hash);
  }
  \<close>
  \<^verbatim>\<open>hash << 5\<close> is a 32-bit result; the subtraction and the addition are exact on
  numbers of this size; \<^verbatim>\<open>hash |= 0\<close> wraps to 32 bits; \<^verbatim>\<open>Math.abs\<close> works on
  numbers, so \<open>-2^31\<close> becomes \<open>2^31\<close>.
\<close>

definition hashString_step :: "int \<Rightarrow> jschar \<Rightarrow> int" where
  "hashString_step hash c = toInt32 ((toInt32 (toInt32 hash * 2 ^ 5) - hash) + uint c)"

fun hashString_loop :: "int \<Rightarrow> jsstring \<Rightarrow> int" where
  "hashString_loop hash [] = hash"
| "hashString_loop hash (c # cs) = hashString_loop (hashString_step hash c) cs"

definition hashString :: "jsstring \<Rightarrow> int" where
  "hashString v = \<bar>hashString_loop 0 v\<bar>"

record gradient =
  primary :: string
  secondary :: string

definition PROJECT_GRADIENT_PALETTE :: "gradient list" where
  "PROJECT_GRADIENT_PALETTE =
     [\<lparr>primary = ''#007aff'', secondary = ''#5ac8fa''\<rparr>,
      \<lparr>primary = ''#34c759'', secondary = ''#30d158''\<rparr>,
      \<lparr>primary = ''#ff9500'', secondary = ''#ffcc00''\<rparr>,
      \<lparr>primary = ''#af52de'', secondary = ''#bf5af2''\<rparr>,
      \<lparr>primary = ''#5856d6'', secondary = ''#5e5ce6''\<rparr>,
      \<lparr>primary = ''#ff3b30'', secondary = ''#ff6961''\<rparr>]"

definition HOBBY_PROJECT_GRADIENT_PALETTE :: "gradient list" where
  "HOBBY_PROJECT_GRADIENT_PALETTE =
     [\<lparr>primary = ''#34c759'', secondary = ''#30d158''\<rparr>,
      \<lparr>primary = ''#2fd45c'', secondary = ''#7be495''\<rparr>,
      \<lparr>primary = ''#22c55e'', secondary = ''#86efac''\<rparr>,
      \<lparr>primary = ''#16c784'', secondary = ''#5eead4''\<rparr>]"

text \<open>
  \<^verbatim>\<open>options.gradientPalette\<close> is used when it is a non-empty array, the built-in palette
  otherwise (\<open>None\<close>: the option is absent or not an array).
\<close>

definition resolve_gradientPalette :: "gradient list option \<Rightarrow> gradient list" where
  "resolve_gradientPalette opt =
     (case opt of
        Some gp \<Rightarrow> if length gp > 0 then gp else PROJECT_GRADIENT_PALETTE
      | None \<Rightarrow> PROJECT_GRADIENT_PALETTE)"

text \<open>
  What the code throws: a TypeError of the platform (a property read on \<^verbatim>\<open>undefined\<close>),
  or \<^verbatim>\<open>new Error(message)\<close>.
\<close>

datatype js_exception = TypeError | Error jsstring

text \<open>
  Lines 1562 to 1570 of \<^verbatim>\<open>decorateProjectTiles\<close>: the hash of the tile's key, the
  decision to use a gradient, and the palette lookup. Reading \<^verbatim>\<open>palette.primary\<close>
  from an out-of-range lookup (\<^verbatim>\<open>undefined\<close>) throws a TypeError. The result is the
  palette entry copied into the tile, or \<open>None\<close> when the tile gets no gradient.
\<close>

definition project_gradient ::
  "bool \<Rightarrow> gradient list \<Rightarrow> nat \<Rightarrow> jsstring \<Rightarrow> js_exception + gradient option" where
  "project_gradient enableGradients gradientPalette patternLength key =
     (let projectHash = hashString key;
          useGradient = (enableGradients \<and> (js_rem projectHash 3 = 0 \<or> patternLength = 3))
      in if useGradient
         then (case js_index gradientPalette (js_rem projectHash (int (length gradientPalette))) of
                 None \<Rightarrow> Inl TypeError
               | Some palette \<Rightarrow> Inr (Some palette))
         else Inr None)"

section \<open>Typewriter: question/answer pairs\<close>

text \<open>
  \<^verbatim>\<open>
  function buildTypewriterPairs(lines) {
      const pairs = [];
      for (let index = 0; index < lines.length; index += 2) {
          const question = `${lines[index] ?? ""}`.trim();
          const answer = `${lines[index + 1] ?? ""}`.trim();
          if (!question && !answer) continue;
          pairs.push({ question, answer });
      }
      return pairs;
  }
  \<close>
  \<open>lines\<close> is an array of strings; \<open>js_elem_or_empty\<close> is \<^verbatim>\<open>lines[i] ?? ""\<close>, the empty
  string past the end of the array. The loop is modelled with its index and its accumulator.
\<close>

record typewriter_pair =
  question :: jsstring
  answer :: jsstring

definition js_elem_or_empty :: "jsstring list \<Rightarrow> nat \<Rightarrow> jsstring" where
  "js_elem_or_empty lines i = (if i < length lines then lines ! i else [])"

function buildTypewriterPairs_loop ::
  "jsstring list \<Rightarrow> nat \<Rightarrow> typewriter_pair list \<Rightarrow> typewriter_pair list" where
  "buildTypewriterPairs_loop lines index pairs =
     (if index < length lines
      then (let question = js_trim (js_elem_or_empty lines index);
                answer = js_trim (js_elem_or_empty lines (index + 1))
            in if question = [] \<and> answer = []
               then buildTypewriterPairs_loop lines (index + 2) pairs
               else buildTypewriterPairs_loop lines (index + 2)
                      (pairs @ [\<lparr>question = question, answer = answer\<rparr>]))
      else pairs)"
  by pat_completeness auto
termination
  by (relation "measure (\<lambda>(lines, index, pairs). length lines - index)") auto

definition buildTypewriterPairs :: "jsstring list \<Rightarrow> typewriter_pair list" where
  "buildTypewriterPairs lines = buildTypewriterPairs_loop lines 0 []"

text \<open>
  The specification's description of the result, written from its words: the flat sequence
  is grouped two at a time (an odd trailing element is a question with an empty answer),
  both parts are trimmed, and a pair with both parts empty is dropped.
\<close>

fun group_in_twos :: "jsstring list \<Rightarrow> (jsstring \<times> jsstring) list" where
  "group_in_twos [] = []"
| "group_in_twos [q] = [(q, [])]"
| "group_in_twos (q # a # rest) = (q, a) # group_in_twos rest"

definition trimmed_pair :: "jsstring \<times> jsstring \<Rightarrow> typewriter_pair" where
  "trimmed_pair qa = \<lparr>question = js_trim (fst qa), answer = js_trim (snd qa)\<rparr>"

definition both_empty :: "typewriter_pair \<Rightarrow> bool" where
  "both_empty p \<longleftrightarrow> question p = [] \<and> answer p = []"

definition pairs_spec :: "jsstring list \<Rightarrow> typewriter_pair list" where
  "pairs_spec lines = filter (\<lambda>p. \<not> both_empty p) (map trimmed_pair (group_in_twos lines))"

section \<open>Typewriter: HTML escaping and keyword highlighting\<close>

text \<open>
  \<^verbatim>\<open>
  function escapeHTML(value) {
      return value
          .replaceAll("&", "&amp;")
          .replaceAll("<", "&lt;")
          .replaceAll(">", "&gt;")
          .replaceAll("\"", "&quot;")
          .replaceAll("'", "&#39;");
  }
  \<close>
  \<open>replaceAll_char c r s\<close> is \<^verbatim>\<open>s.replaceAll(c, r)\<close> for a pattern of one code unit.
  The five replacements run one after the other, as in the source.
\<close>

definition replaceAll_char :: "jschar \<Rightarrow> jsstring \<Rightarrow> jsstring \<Rightarrow> jsstring" where
  "replaceAll_char c r s = concat (map (\<lambda>x. if x = c then r else [x]) s)"

definition escapeHTML :: "jsstring \<Rightarrow> jsstring" where
  "escapeHTML v =
     replaceAll_char 0x27 (js_str ''&#39;'')
       (replaceAll_char 0x22 (js_str ''&quot;'')
         (replaceAll_char 0x3E (js_str ''&gt;'')
           (replaceAll_char 0x3C (js_str ''&lt;'')
             (replaceAll_char 0x26 (js_str ''&amp;'') v))))"

text \<open>
  \<^verbatim>\<open>
  function highlightHeroLine(line, highlightPattern = HERO_HIGHLIGHT_PATTERN) {
      const regex = new RegExp(highlightPattern.source, "gi");
      const matches = Array.from(line.matchAll(regex));
      if (!matches.length) {
          return escapeHTML(line);
      }
      let currentIndex = 0;
      let highlighted = "";
      matches.forEach(match => {
          const index = match.index ?? 0;
          const term = match[0] ?? "";
          highlighted += escapeHTML(line.slice(currentIndex, index));
          highlighted += `<span class="hero-typewriter-accent">${escapeHTML(term)}</span>`;
          currentIndex = index + term.length;
      });
      highlighted += escapeHTML(line.slice(currentIndex));
      return highlighted;
  }
  \<close>
  The regular expression engine is the platform's. The model takes what
  \<^verbatim>\<open>Array.from(line.matchAll(regex))\<close> returns as a parameter: the list of matches, each
  with its \<^verbatim>\<open>index\<close> and its matched text \<^verbatim>\<open>match[0]\<close>. The \<^verbatim>\<open>forEach\<close> is a
  fold over that list with the state \<open>(currentIndex, highlighted)\<close>.
\<close>

definition accent_open :: jsstring where
  "accent_open = js_str ''<span class=\"hero-typewriter-accent\">''"

definition accent_close :: jsstring where
  "accent_close = js_str ''</span>''"

type_synonym regex_match = "nat \<times> jsstring"

definition highlight_step :: "jsstring \<Rightarrow> regex_match \<Rightarrow> nat \<times> jsstring \<Rightarrow> nat \<times> jsstring" where
  "highlight_step line m st =
     (case (m, st) of ((index, term), (currentIndex, highlighted)) \<Rightarrow>
        (index + length term,
         highlighted @ escapeHTML (js_slice line currentIndex index)
                     @ accent_open @ escapeHTML term @ accent_close))"

definition highlightHeroLine :: "jsstring \<Rightarrow> regex_match list \<Rightarrow> jsstring" where
  "highlightHeroLine line matches =
     (if matches = [] then escapeHTML line
      else (case fold (highlight_step line) matches (0, []) of
              (currentIndex, highlighted) \<Rightarrow>
                highlighted @ escapeHTML (js_slice_from line currentIndex)))"

text \<open>
  What \<^verbatim>\<open>matchAll\<close> guarantees of its result for any pattern with the \<^verbatim>\<open>g\<close> flag:
  the matches come in increasing order and do not overlap, each lies inside the line, and
  the matched text is the substring of the line at the match's index.
\<close>

fun matchAll_result :: "jsstring \<Rightarrow> nat \<Rightarrow> regex_match list \<Rightarrow> bool" where
  "matchAll_result line from [] = True"
| "matchAll_result line from ((index, term) # ms) =
     (from \<le> index \<and> index + length term \<le> length line
      \<and> term = js_slice line index (index + length term)
      \<and> matchAll_result line (index + length term) ms)"

text \<open>
  A rendered line read as a sequence of segments: literal text between matches, and the
  matches. \<open>segment_markup\<close> is the markup of a segment: escaped text, wrapped in the
  accent span for a match. \<open>escape_char\<close> is the entity table, and \<open>markup_char\<close> the
  code units \<^verbatim>\<open><\<close>, \<^verbatim>\<open>>\<close>, \<^verbatim>\<open>"\<close> and \<^verbatim>\<open>'\<close> that open or close a tag or
  an attribute value.
\<close>

datatype segment = Literal jsstring | Match jsstring

fun segment_text :: "segment \<Rightarrow> jsstring" where
  "segment_text (Literal t) = t"
| "segment_text (Match t) = t"

fun segment_markup :: "segment \<Rightarrow> jsstring" where
  "segment_markup (Literal t) = escapeHTML t"
| "segment_markup (Match t) = accent_open @ escapeHTML t @ accent_close"

definition escape_char :: "jschar \<Rightarrow> jsstring" where
  "escape_char c =
     (if c = 0x26 then js_str ''&amp;''
      else if c = 0x3C then js_str ''&lt;''
      else if c = 0x3E then js_str ''&gt;''
      else if c = 0x22 then js_str ''&quot;''
      else if c = 0x27 then js_str ''&#39;''
      else [c])"

definition markup_char :: "jschar \<Rightarrow> bool" where
  "markup_char c \<longleftrightarrow> c = 0x3C \<or> c = 0x3E \<or> c = 0x22 \<or> c = 0x27"

text \<open>The segments of a line, given its matches, from position \<open>cur\<close> on.\<close>

fun segments_from :: "jsstring \<Rightarrow> nat \<Rightarrow> regex_match list \<Rightarrow> segment list" where
  "segments_from line cur [] = [Literal (js_slice_from line cur)]"
| "segments_from line cur ((index, term) # ms) =
     Literal (js_slice line cur index) # Match term # segments_from line (index + length term) ms"

text \<open>
  The matches of a segmentation with their positions: each \<open>Match\<close> segment with the
  number of code units of the line that come before it.
\<close>

fun match_offsets :: "nat \<Rightarrow> segment list \<Rightarrow> regex_match list" where
  "match_offsets off [] = []"
| "match_offsets off (Literal t # ss) = match_offsets (off + length t) ss"
| "match_offsets off (Match t # ss) = (off, t) # match_offsets (off + length t) ss"

section \<open>Colour model: WCAG luminance and contrast\<close>

text \<open>
  \<^verbatim>\<open>
  function toLinearChannel(channel) {
      const normalized = channel / 255;
      return normalized <= 0.03928
          ? normalized / 12.92
          : ((normalized + 0.055) / 1.055) ** 2.4;
  }
  function relativeLuminance(color) {
      return (0.2126 * toLinearChannel(color.r))
          + (0.7152 * toLinearChannel(color.g))
          + (0.0722 * toLinearChannel(color.b));
  }
  function contrastRatio(first, second) {
      const firstLuminance = relativeLuminance(first);
      const secondLuminance = relativeLuminance(second);
      const lighter = Math.max(firstLuminance, secondLuminance);
      const darker = Math.min(firstLuminance, secondLuminance);
      return (lighter + 0.05) / (darker + 0.05);
  }
  \<close>
  The numbers of these three functions are read as real numbers: the rounding of double
  precision, NaN and the infinities are not modelled. The fields \<^verbatim>\<open>r\<close>, \<^verbatim>\<open>g\<close>, \<^verbatim>\<open>b\<close> of
  a colour carry the record's name as a prefix. The two facts proved below do not
  rest on rounding: \<^verbatim>\<open>Math.max\<close> and \<^verbatim>\<open>Math.min\<close> do not depend on the order of
  their arguments, and a finite non-zero double divided by itself is exactly 1.
\<close>

record rgb =
  rgb_r :: real
  rgb_g :: real
  rgb_b :: real

definition toLinearChannel :: "real \<Rightarrow> real" where
  "toLinearChannel channel =
     (let normalized = channel / 255
      in if normalized \<le> 0.03928
         then normalized / 12.92
         else ((normalized + 0.055) / 1.055) powr 2.4)"

definition relativeLuminance :: "rgb \<Rightarrow> real" where
  "relativeLuminance color =
     (0.2126 * toLinearChannel (rgb_r color))
     + (0.7152 * toLinearChannel (rgb_g color))
     + (0.0722 * toLinearChannel (rgb_b color))"

definition contrastRatio :: "rgb \<Rightarrow> rgb \<Rightarrow> real" where
  "contrastRatio first second =
     (let firstLuminance = relativeLuminance first;
          secondLuminance = relativeLuminance second;
          lighter = max firstLuminance secondLuminance;
          darker = min firstLuminance secondLuminance
      in (lighter + 0.05) / (darker + 0.05))"

text \<open>A colour whose channels are in the range the data model gives them.\<close>

definition rgb_in_range :: "rgb \<Rightarrow> bool" where
  "rgb_in_range c \<longleftrightarrow>
     0 \<le> rgb_r c \<and> rgb_r c \<le> 255 \<and> 0 \<le> rgb_g c \<and> rgb_g c \<le> 255 \<and> 0 \<le> rgb_b c \<and> rgb_b c \<le> 255"

section \<open>Timeline: expand controls, pager and detail modal\<close>

subsection \<open>The page state\<close>

text \<open>
  The part of the document and of the module's variables that the timeline code reads and
  writes, as explicit state.

  An expand control is one \<^verbatim>\<open>.plus-go-x > input\<close> checkbox together with the nodes
  \<^verbatim>\<open>setTimelinePlusState\<close> reaches from it: its parent label (which exists, by the
  selector), the label's parent container, and the icon \<^verbatim>\<open>label.querySelector("div")\<close>,
  which may be absent (\<open>None\<close>). Controls are named by a number and kept in a store.
\<close>

record icon_el =
  icon_animating :: bool
  icon_animation :: string

record plus_control =
  checked :: bool
  aria_expanded :: string
  label_checked :: bool
  container_is_open :: bool
  icon :: "icon_el option"

text \<open>
  A slide of the pager: its class \<^verbatim>\<open>is-active\<close>, its attributes, its
  \<^verbatim>\<open>data-index\<close> (\<open>None\<close> when the attribute is absent), and the expand controls inside
  it (\<^verbatim>\<open>slide.querySelectorAll(".plus-go-x > input")\<close>, in document order).
\<close>

record slide_el =
  slide_is_active :: bool
  slide_aria_hidden :: string
  slide_tabindex :: string
  slide_data_index :: "jsstring option"
  slide_controls :: "nat list"

record trigger_el =
  trigger_is_active :: bool
  trigger_aria_selected :: string
  trigger_tabindex :: string
  trigger_aria_current :: string

record modal_el =
  modal_is_open :: bool
  modal_aria_hidden :: string

text \<open>A timeline entry of the content source; a field is \<open>None\<close> when it is absent or null.\<close>

record timeline_entry =
  entry_title :: "jsstring option"
  entry_subtitle :: "jsstring option"
  entry_date :: "jsstring option"
  entry_description :: "jsstring option"

datatype focus_target = FocusTrigger nat | FocusCheckbox nat

text \<open>
  \<open>modal\<close>, \<open>modal_title\<close>, \<open>modal_meta\<close> and \<open>modal_description\<close> are the elements
  \<^verbatim>\<open>#timeline-job-modal\<close>, \<^verbatim>\<open>#timeline-job-modal-title\<close>, \<^verbatim>\<open>#timeline-job-modal-meta\<close>
  and \<^verbatim>\<open>#timeline-job-modal-description\<close> (\<open>None\<close>: not in the document; otherwise the
  modal's state, and the text or markup of the other three). \<open>slides\<close>, \<open>triggers\<close> and
  \<open>activeIndex\<close> are the variables of \<^verbatim>\<open>setupTimelinePager\<close>'s closure;
  \<open>activeTimelineModalCheckbox\<close> and \<open>renderedTimelineEntries\<close> are the module's.
  \<open>focused\<close> is the focused element of the document when it is a trigger or an expand
  control (\<open>None\<close>: any other element), and \<open>scrolled_into_view\<close> the calls of
  \<^verbatim>\<open>scrollIntoView\<close> on the triggers (trigger index and behaviour), in order.
\<close>

record page =
  controls :: "nat \<Rightarrow> plus_control"
  slides :: "slide_el list"
  triggers :: "trigger_el list"
  activeIndex :: int
  previous_disabled :: bool
  next_disabled :: bool
  timeline_single :: bool
  scrolled_into_view :: "(nat \<times> string) list"
  modal :: "modal_el option"
  modal_title :: "jsstring option"
  modal_meta :: "jsstring option"
  modal_description :: "jsstring option"
  body_timeline_modal_open :: bool
  activeTimelineModalCheckbox :: "nat option"
  renderedTimelineEntries :: "timeline_entry list"
  focused :: "focus_target option"

subsection \<open>\<^verbatim>\<open>setTimelinePlusState\<close> and \<^verbatim>\<open>clearTimelinePlusInSlide\<close>\<close>

text \<open>
  \<^verbatim>\<open>
  function setTimelinePlusState(checkbox, isOpen, animate = true) {
      checkbox.checked = isOpen;
      checkbox.setAttribute("aria-expanded", isOpen ? "true" : "false");
      const label = checkbox.parentElement;
      const container = label?.parentElement;
      const icon = label?.querySelector("div");
      label?.classList.toggle("checked", isOpen);
      container?.classList.toggle("is-open", isOpen);
      if (!(icon instanceof HTMLElement)) return;
      icon.classList.remove("animating");
      icon.style.animation = animate
          ? (isOpen
              ? "make_x 0.45s cubic-bezier(0.7, 0, 0.2, 1) both"
              : "make_plus 0.36s cubic-bezier(0.7, 0, 0.2, 1) both")
          : "none";
  }
  function clearTimelinePlusInSlide(slide, animate = false) {
      const checkboxes = Array.from(slide.querySelectorAll(".plus-go-x > input"));
      checkboxes.forEach(checkboxElement => {
          if (!(checkboxElement instanceof HTMLInputElement)) return;
          setTimelinePlusState(checkboxElement, false, animate);
      });
  }
  \<close>
\<close>

definition plus_state :: "plus_control \<Rightarrow> bool \<Rightarrow> bool \<Rightarrow> plus_control" where
  "plus_state control isOpen animate =
     control
       \<lparr>checked := isOpen,
        aria_expanded := (if isOpen then ''true'' else ''false''),
        label_checked := isOpen,
        container_is_open := isOpen,
        icon := (case icon control of
                   None \<Rightarrow> None
                 | Some i \<Rightarrow>
                     Some (i\<lparr>icon_animating := False,
                             icon_animation :=
                               (if animate
                                then (if isOpen
                                      then ''make_x 0.45s cubic-bezier(0.7, 0, 0.2, 1) both''
                                      else ''make_plus 0.36s cubic-bezier(0.7, 0, 0.2, 1) both'')
                                else ''none'')\<rparr>))\<rparr>"

definition setTimelinePlusState :: "nat \<Rightarrow> bool \<Rightarrow> bool \<Rightarrow> page \<Rightarrow> page" where
  "setTimelinePlusState checkbox isOpen animate p =
     p\<lparr>controls := (controls p)(checkbox := plus_state (controls p checkbox) isOpen animate)\<rparr>"

definition clearTimelinePlusInSlide :: "slide_el \<Rightarrow> bool \<Rightarrow> page \<Rightarrow> page" where
  "clearTimelinePlusInSlide slide animate p =
     fold (\<lambda>checkboxElement. setTimelinePlusState checkboxElement False animate)
       (slide_controls slide) p"

subsection \<open>The detail modal\<close>

text \<open>
  \<^verbatim>\<open>
  function closeTimelineJobModal(options = {}) {
      const { restoreFocus = true } = options;
      const modal = $("#timeline-job-modal");
      if (!modal) return;
      modal.classList.remove("is-open");
      modal.setAttribute("aria-hidden", "true");
      document.body.classList.remove("timeline-modal-open");
      if (!(activeTimelineModalCheckbox instanceof HTMLInputElement)) {
          activeTimelineModalCheckbox = null;
          return;
      }
      const previousCheckbox = activeTimelineModalCheckbox;
      activeTimelineModalCheckbox = null;
      setTimelinePlusState(previousCheckbox, false, false);
      if (restoreFocus) previousCheckbox.focus();
  }
  \<close>
\<close>

definition closeTimelineJobModal :: "bool \<Rightarrow> page \<Rightarrow> page" where
  "closeTimelineJobModal restoreFocus p =
     (case modal p of
        None \<Rightarrow> p
      | Some m \<Rightarrow>
          (let p1 = p\<lparr>modal := Some (m\<lparr>modal_is_open := False, modal_aria_hidden := ''true''\<rparr>),
                      body_timeline_modal_open := False\<rparr>
           in case activeTimelineModalCheckbox p1 of
                None \<Rightarrow> p1\<lparr>activeTimelineModalCheckbox := None\<rparr>
              | Some previousCheckbox \<Rightarrow>
                  (let p2 = setTimelinePlusState previousCheckbox False False
                              (p1\<lparr>activeTimelineModalCheckbox := None\<rparr>)
                   in if restoreFocus
                      then p2\<lparr>focused := Some (FocusCheckbox previousCheckbox)\<rparr>
                      else p2)))"

text \<open>
  \<^verbatim>\<open>s.split("\n")\<close> and \<^verbatim>\<open>parts.join(sep)\<close>, and \<^verbatim>\<open>`${x ?? ""}`\<close> for a field
  that may be absent.
\<close>

fun js_split :: "jschar \<Rightarrow> jsstring \<Rightarrow> jsstring list" where
  "js_split sep [] = [[]]"
| "js_split sep (c # cs) =
     (if c = sep then [] # js_split sep cs
      else (case js_split sep cs of
              x # xs \<Rightarrow> (c # x) # xs
            | [] \<Rightarrow> [[c]]))"

fun js_join :: "jsstring \<Rightarrow> jsstring list \<Rightarrow> jsstring" where
  "js_join sep [] = []"
| "js_join sep [x] = x"
| "js_join sep (x # y # ys) = x @ sep @ js_join sep (y # ys)"

definition or_empty :: "jsstring option \<Rightarrow> jsstring" where
  "or_empty v = (case v of None \<Rightarrow> [] | Some s \<Rightarrow> s)"

text \<open>
  \<^verbatim>\<open>
  function openTimelineJobModal(entry, triggerCheckbox) {
      const modal = $("#timeline-job-modal");
      const titleElement = $("#timeline-job-modal-title");
      const metaElement = $("#timeline-job-modal-meta");
      const descriptionElement = $("#timeline-job-modal-description");
      if (!modal || !titleElement || !metaElement || !descriptionElement) return;
      if (activeTimelineModalCheckbox instanceof HTMLInputElement
          && activeTimelineModalCheckbox !== triggerCheckbox) {
          setTimelinePlusState(activeTimelineModalCheckbox, false, false);
      }
      const title = `${entry.title ?? ""}`.trim();
      const subtitle = `${entry.subtitle ?? ""}`.trim();
      const date = `${entry.date ?? ""}`.trim();
      const descriptionLines = `${entry.description ?? ""}`
          .split("\n")
          .map(line => line.trim())
          .filter(Boolean);
      titleElement.textContent = title;
      metaElement.textContent = [subtitle, date].filter(Boolean).join(" \<cdot> ");
      descriptionElement.innerHTML = descriptionLines
          .map(line => `<p>${escapeHTML(line)}</p>`)
          .join("");
      setTimelinePlusState(triggerCheckbox, true, true);
      activeTimelineModalCheckbox = triggerCheckbox;
      modal.classList.add("is-open");
      modal.setAttribute("aria-hidden", "false");
      document.body.classList.add("timeline-modal-open");
  }
  \<close>
  The separator of the meta line is a space, U+00B7 (middle dot) and a space.
\<close>

definition openTimelineJobModal :: "timeline_entry \<Rightarrow> nat \<Rightarrow> page \<Rightarrow> page" where
  "openTimelineJobModal entry triggerCheckbox p =
     (case modal p of
        None \<Rightarrow> p
      | Some m \<Rightarrow>
          if modal_title p = None \<or> modal_meta p = None \<or> modal_description p = None then p
          else
            (let p1 = (case activeTimelineModalCheckbox p of
                         None \<Rightarrow> p
                       | Some previous \<Rightarrow>
                           if previous \<noteq> triggerCheckbox
                           then setTimelinePlusState previous False False p
                           else p);
                 title = js_trim (or_empty (entry_title entry));
                 subtitle = js_trim (or_empty (entry_subtitle entry));
                 date = js_trim (or_empty (entry_date entry));
                 descriptionLines =
                   filter (\<lambda>line. line \<noteq> [])
                     (map js_trim (js_split 0xA (or_empty (entry_description entry))));
                 p2 = p1\<lparr>modal_title := Some title,
                          modal_meta :=
                            Some (js_join [0x20, 0xB7, 0x20]
                                    (filter (\<lambda>s. s \<noteq> []) [subtitle, date])),
                          modal_description :=
                            Some (concat (map (\<lambda>line. js_str ''<p>'' @ escapeHTML line
                                                        @ js_str ''</p>'')
                                            descriptionLines))\<rparr>;
                 p3 = setTimelinePlusState triggerCheckbox True True p2
             in p3\<lparr>activeTimelineModalCheckbox := Some triggerCheckbox,
                    modal := Some (m\<lparr>modal_is_open := True, modal_aria_hidden := ''false''\<rparr>),
                    body_timeline_modal_open := True\<rparr>))"

subsection \<open>The pager\<close>

text \<open>
  \<^verbatim>\<open>
  function keepTriggerVisible(trigger, behavior = "smooth") {
      if (!trigger) return;
      trigger.scrollIntoView({ behavior, block: "nearest", inline: "center" });
  }
  function setActiveSlide(index, shouldFocusTrigger = false, scrollBehavior = "smooth") {
      activeIndex = (index + slides.length) % slides.length;
      slides.forEach((slide, slideIndex) => {
          const isActive = slideIndex === activeIndex;
          slide.classList.toggle("is-active", isActive);
          slide.setAttribute("aria-hidden", isActive ? "false" : "true");
          slide.setAttribute("tabindex", isActive ? "0" : "-1");
          if (!isActive) clearTimelinePlusInSlide(slide, false);
      });
      triggers.forEach((trigger, triggerIndex) => {
          const isActive = triggerIndex === activeIndex;
          trigger.classList.toggle("is-active", isActive);
          trigger.setAttribute("aria-selected", isActive ? "true" : "false");
          trigger.setAttribute("tabindex", isActive ? "0" : "-1");
          trigger.setAttribute("aria-current", isActive ? "true" : "false");
      });
      previousButton.disabled = slides.length <= 1;
      nextButton.disabled = slides.length <= 1;
      timelineElement.classList.toggle("timeline-single", slides.length <= 1);
      keepTriggerVisible(triggers[activeIndex], scrollBehavior);
      if (activeTimelineModalCheckbox instanceof HTMLInputElement
          && !slides[activeIndex]?.contains(activeTimelineModalCheckbox)) {
          closeTimelineJobModal({ restoreFocus: false });
      }
      if (shouldFocusTrigger) triggers[activeIndex]?.focus();
  }
  \<close>
  \<^verbatim>\<open>setActiveSlide\<close> is a closure of \<^verbatim>\<open>setupTimelinePager\<close>, which returns before
  defining it when there is no slide (\<^verbatim>\<open>!slides.length\<close>): it only ever runs with
  at least one slide. The modal's owner is always a \<^verbatim>\<open>.plus-go-x > input\<close> (the change
  handler checks it), so \<^verbatim>\<open>slide.contains(owner)\<close> is membership in the slide's controls.
  \<open>mark_slide\<close> is the class and the two attributes a slide gets, \<open>activate_slide\<close> the
  body of \<^verbatim>\<open>slides.forEach\<close> at one index, \<open>activate_trigger\<close> that of
  \<^verbatim>\<open>triggers.forEach\<close>.
\<close>

definition mark_slide :: "bool \<Rightarrow> slide_el \<Rightarrow> slide_el" where
  "mark_slide isActive slide =
     slide\<lparr>slide_is_active := isActive,
           slide_aria_hidden := (if isActive then ''false'' else ''true''),
           slide_tabindex := (if isActive then ''0'' else ''-1'')\<rparr>"

definition activate_slide :: "int \<Rightarrow> nat \<Rightarrow> page \<Rightarrow> page" where
  "activate_slide active slideIndex p =
     (let isActive = (int slideIndex = active);
          slide = mark_slide isActive (slides p ! slideIndex);
          p1 = p\<lparr>slides := (slides p)[slideIndex := slide]\<rparr>
      in if \<not> isActive then clearTimelinePlusInSlide slide False p1 else p1)"

definition activate_trigger :: "int \<Rightarrow> nat \<times> trigger_el \<Rightarrow> trigger_el" where
  "activate_trigger active it =
     (let isActive = (int (fst it) = active)
      in (snd it)\<lparr>trigger_is_active := isActive,
                  trigger_aria_selected := (if isActive then ''true'' else ''false''),
                  trigger_tabindex := (if isActive then ''0'' else ''-1''),
                  trigger_aria_current := (if isActive then ''true'' else ''false'')\<rparr>)"

definition keepTriggerVisible :: "int \<Rightarrow> string \<Rightarrow> page \<Rightarrow> page" where
  "keepTriggerVisible i behavior p =
     (case js_index (triggers p) i of
        None \<Rightarrow> p
      | Some trigger \<Rightarrow> p\<lparr>scrolled_into_view := scrolled_into_view p @ [(nat i, behavior)]\<rparr>)"

definition slide_contains :: "page \<Rightarrow> int \<Rightarrow> nat \<Rightarrow> bool" where
  "slide_contains p i checkbox =
     (case js_index (slides p) i of
        None \<Rightarrow> False
      | Some slide \<Rightarrow> checkbox \<in> set (slide_controls slide))"

text \<open>
  \<open>setActiveSlide_mark\<close> is the function down to \<^verbatim>\<open>keepTriggerVisible\<close>, with the new
  active index computed; \<open>setActiveSlide\<close> computes the index, marks, and then looks at the
  modal and at the focus.
\<close>

definition setActiveSlide_mark :: "int \<Rightarrow> string \<Rightarrow> page \<Rightarrow> page" where
  "setActiveSlide_mark active scrollBehavior p =
     (let n = int (length (slides p));
          p1 = p\<lparr>activeIndex := active\<rparr>;
          p2 = fold (activate_slide active) [0..<length (slides p1)] p1;
          p3 = p2\<lparr>triggers := map (activate_trigger active) (enumerate 0 (triggers p2))\<rparr>;
          p4 = p3\<lparr>previous_disabled := (n \<le> 1), next_disabled := (n \<le> 1),
                   timeline_single := (n \<le> 1)\<rparr>
      in keepTriggerVisible active scrollBehavior p4)"

text \<open>
  \<^verbatim>\<open>
      trigger.addEventListener("focus", () => keepTriggerVisible(trigger, "smooth"));
  \<close>
  \<open>focus_trigger\<close> is \<^verbatim>\<open>triggers[i]?.focus()\<close>: nothing when there is no such trigger;
  otherwise the trigger becomes the focused element, and when it was not focused already
  its \<^verbatim>\<open>focus\<close> listener (registered by \<^verbatim>\<open>setupTimelinePager\<close>) runs and scrolls it into
  view once more.
\<close>

definition focus_trigger :: "int \<Rightarrow> page \<Rightarrow> page" where
  "focus_trigger i p =
     (case js_index (triggers p) i of
        None \<Rightarrow> p
      | Some trigger \<Rightarrow>
          if focused p = Some (FocusTrigger (nat i)) then p
          else keepTriggerVisible i ''smooth'' (p\<lparr>focused := Some (FocusTrigger (nat i))\<rparr>))"

definition setActiveSlide :: "int \<Rightarrow> bool \<Rightarrow> string \<Rightarrow> page \<Rightarrow> page" where
  "setActiveSlide index shouldFocusTrigger scrollBehavior p =
     (let n = int (length (slides p));
          active = js_rem (index + n) n;
          p5 = setActiveSlide_mark active scrollBehavior p;
          p6 = (case activeTimelineModalCheckbox p5 of
                  None \<Rightarrow> p5
                | Some owner \<Rightarrow>
                    if \<not> slide_contains p5 active owner
                    then closeTimelineJobModal False p5
                    else p5)
      in if shouldFocusTrigger then focus_trigger active p6 else p6)"

text \<open>
  The callers of \<^verbatim>\<open>setActiveSlide\<close> in \<^verbatim>\<open>setupTimelinePager\<close>: a click on the trigger
  of slide \<open>index\<close>, the previous and next buttons, the left and right arrow keys, and the
  first call at the end of the setup.
\<close>

text \<open>
  \<^verbatim>\<open>
      let activeIndex = Math.max(0, slides.findIndex(slide => slide.classList.contains("is-active")));
      if (activeIndex < 0) activeIndex = 0;
  \<close>
  The active index \<^verbatim>\<open>setupTimelinePager\<close> starts from; \<^verbatim>\<open>findIndex\<close> gives \<open>-1\<close> when
  no slide is marked active.
\<close>

fun js_findIndex :: "('a \<Rightarrow> bool) \<Rightarrow> 'a list \<Rightarrow> int" where
  "js_findIndex P [] = - 1"
| "js_findIndex P (x # xs) =
     (if P x then 0 else (let i = js_findIndex P xs in if i < 0 then - 1 else i + 1))"

definition initial_activeIndex :: "slide_el list \<Rightarrow> int" where
  "initial_activeIndex ss =
     (let activeIndex = max 0 (js_findIndex slide_is_active ss)
      in if activeIndex < 0 then 0 else activeIndex)"

datatype pager_event =
  TriggerClick nat | PreviousClick | NextClick | ArrowLeft | ArrowRight | SetupDone

definition pager_event_index :: "page \<Rightarrow> pager_event \<Rightarrow> int" where
  "pager_event_index p e =
     (case e of
        TriggerClick index \<Rightarrow> int index
      | PreviousClick \<Rightarrow> activeIndex p - 1
      | NextClick \<Rightarrow> activeIndex p + 1
      | ArrowLeft \<Rightarrow> activeIndex p - 1
      | ArrowRight \<Rightarrow> activeIndex p + 1
      | SetupDone \<Rightarrow> activeIndex p)"

definition pager_handle :: "pager_event \<Rightarrow> page \<Rightarrow> page" where
  "pager_handle e p =
     (case e of
        TriggerClick index \<Rightarrow> setActiveSlide (int index) True ''smooth'' p
      | PreviousClick \<Rightarrow> setActiveSlide (activeIndex p - 1) False ''smooth'' p
      | NextClick \<Rightarrow> setActiveSlide (activeIndex p + 1) False ''smooth'' p
      | ArrowLeft \<Rightarrow> setActiveSlide (activeIndex p - 1) True ''smooth'' p
      | ArrowRight \<Rightarrow> setActiveSlide (activeIndex p + 1) True ''smooth'' p
      | SetupDone \<Rightarrow> setActiveSlide (activeIndex p) False ''auto'' p)"

subsection \<open>The change handler of a timeline expand control\<close>

text \<open>
  \<^verbatim>\<open>Number.parseInt(string, radix)\<close> for radix 10 and 16: leading white space is skipped,
  then an optional sign, then (radix 16 only) an optional \<^verbatim>\<open>0x\<close> or \<^verbatim>\<open>0X\<close>, then the
  longest run of digits of the radix; \<open>None\<close> is NaN (no digit). The value is the exact
  integer (a double holds it exactly below \<open>2^53\<close>; \<^verbatim>\<open>-0\<close> is read as 0).
\<close>

definition digit_value :: "jschar \<Rightarrow> nat option" where
  "digit_value c =
     (if 0x30 \<le> c \<and> c \<le> 0x39 then Some (unat c - 0x30)
      else if 0x61 \<le> c \<and> c \<le> 0x7A then Some (unat c - 0x61 + 10)
      else if 0x41 \<le> c \<and> c \<le> 0x5A then Some (unat c - 0x41 + 10)
      else None)"

definition radix_digit :: "nat \<Rightarrow> jschar \<Rightarrow> bool" where
  "radix_digit radix c = (case digit_value c of None \<Rightarrow> False | Some v \<Rightarrow> v < radix)"

definition digits_value :: "nat \<Rightarrow> jsstring \<Rightarrow> int" where
  "digits_value radix ds =
     foldl (\<lambda>acc c. acc * int radix + (case digit_value c of None \<Rightarrow> 0 | Some v \<Rightarrow> int v)) 0 ds"

definition js_parseInt :: "jsstring \<Rightarrow> nat \<Rightarrow> int option" where
  "js_parseInt string radix =
     (let s0 = js_trimStart string;
          negative = (case s0 of [] \<Rightarrow> False | c # cs \<Rightarrow> c = 0x2D);
          s1 = (case s0 of [] \<Rightarrow> [] | c # cs \<Rightarrow> if c = 0x2B \<or> c = 0x2D then cs else s0);
          s2 = (if radix = 16 \<and> (take 2 s1 = [0x30, 0x78] \<or> take 2 s1 = [0x30, 0x58])
                then drop 2 s1 else s1);
          z = takeWhile (radix_digit radix) s2
      in if z = [] then None
         else Some ((if negative then - 1 else 1) * digits_value radix z))"

text \<open>
  \<^verbatim>\<open>
  window.timelinePlusGoXHandler = function timelinePlusGoXHandler(event) {
      const checkbox = (event.target);
      if (!(checkbox instanceof HTMLInputElement)) return;
      const slide = checkbox.closest(".timeline-pager-slide");
      if (!(slide instanceof HTMLElement)) return;
      const index = Number.parseInt(slide.dataset.index ?? "-1", 10);
      if (Number.isNaN(index) || !renderedTimelineEntries[index]) {
          setTimelinePlusState(checkbox, false, false);
          return;
      }
      const entry = renderedTimelineEntries[index];
      const hasDescription = `${entry.description ?? ""}`.trim().length > 0;
      if (!hasDescription) {
          setTimelinePlusState(checkbox, false, false);
          return;
      }
      if (!checkbox.checked) {
          closeTimelineJobModal({ restoreFocus: false });
          setTimelinePlusState(checkbox, false, true);
          return;
      }
      openTimelineJobModal(entry, checkbox);
  };
  \<close>
  The handler runs on the \<^verbatim>\<open>change\<close> event of an expand control inside
  \<^verbatim>\<open>#timeline\<close> (\<^verbatim>\<open>initPlusToggleDelegation\<close>), after the browser has toggled
  \<^verbatim>\<open>checked\<close>: the event's target is the control. \<open>closest_slide\<close> is
  \<^verbatim>\<open>checkbox.closest(".timeline-pager-slide")\<close>, the slide that holds the control.
\<close>

definition closest_slide :: "page \<Rightarrow> nat \<Rightarrow> slide_el option" where
  "closest_slide p checkbox = find (\<lambda>slide. checkbox \<in> set (slide_controls slide)) (slides p)"

definition hasDescription :: "timeline_entry \<Rightarrow> bool" where
  "hasDescription entry \<longleftrightarrow> length (js_trim (or_empty (entry_description entry))) > 0"

definition timelinePlusGoXHandler :: "nat \<Rightarrow> page \<Rightarrow> page" where
  "timelinePlusGoXHandler checkbox p =
     (case closest_slide p checkbox of
        None \<Rightarrow> p
      | Some slide \<Rightarrow>
          (case js_parseInt (case slide_data_index slide of
                               None \<Rightarrow> js_str ''-1''
                             | Some s \<Rightarrow> s) 10 of
             None \<Rightarrow> setTimelinePlusState checkbox False False p
           | Some index \<Rightarrow>
               (case js_index (renderedTimelineEntries p) index of
                  None \<Rightarrow> setTimelinePlusState checkbox False False p
                | Some entry \<Rightarrow>
                    if \<not> hasDescription entry
                    then setTimelinePlusState checkbox False False p
                    else if \<not> checked (controls p checkbox)
                    then setTimelinePlusState checkbox False True
                           (closeTimelineJobModal False p)
                    else openTimelineJobModal entry checkbox p)))"

text \<open>
  The closed state of an expand control with no animation: what
  \<^verbatim>\<open>setTimelinePlusState(checkbox, false, false)\<close> leaves.
\<close>

definition closed_no_animation :: "plus_control \<Rightarrow> bool" where
  "closed_no_animation c \<longleftrightarrow>
     \<not> checked c \<and> aria_expanded c = ''false'' \<and> \<not> label_checked c \<and> \<not> container_is_open c
     \<and> (case icon c of
          None \<Rightarrow> True
        | Some i \<Rightarrow> \<not> icon_animating i \<and> icon_animation i = ''none'')"

text \<open>The open state, with the opening animation running.\<close>

definition open_animated :: "plus_control \<Rightarrow> bool" where
  "open_animated c \<longleftrightarrow>
     checked c \<and> aria_expanded c = ''true'' \<and> label_checked c \<and> container_is_open c
     \<and> (case icon c of
          None \<Rightarrow> True
        | Some i \<Rightarrow> \<not> icon_animating i
                   \<and> icon_animation i = ''make_x 0.45s cubic-bezier(0.7, 0, 0.2, 1) both'')"

text \<open>
  The slides and the controls after \<^verbatim>\<open>slides.forEach\<close> has run over the first \<open>n\<close>
  slides, for the proofs: every slide visited is marked, and the controls of the inactive
  ones among them are reset.
\<close>

definition slides_marked :: "int \<Rightarrow> nat \<Rightarrow> slide_el list \<Rightarrow> slide_el list" where
  "slides_marked active n ss =
     map (\<lambda>js. if fst js < n then mark_slide (int (fst js) = active) (snd js) else snd js)
       (enumerate 0 ss)"

definition in_inactive_slide :: "int \<Rightarrow> nat \<Rightarrow> slide_el list \<Rightarrow> nat \<Rightarrow> bool" where
  "in_inactive_slide active n ss c \<longleftrightarrow>
     (\<exists>j<n. int j \<noteq> active \<and> c \<in> set (slide_controls (ss ! j)))"

definition controls_cleared ::
  "int \<Rightarrow> nat \<Rightarrow> slide_el list \<Rightarrow> (nat \<Rightarrow> plus_control) \<Rightarrow> nat \<Rightarrow> plus_control" where
  "controls_cleared active n ss st =
     (\<lambda>c. if in_inactive_slide active n ss c then plus_state (st c) False False else st c)"

text \<open>
  A blank description, in the specification's words: absent, empty, or white space only.
\<close>

definition description_blank :: "timeline_entry \<Rightarrow> bool" where
  "description_blank entry \<longleftrightarrow> list_all js_whitespace (or_empty (entry_description entry))"

section \<open>Colour model: parsing\<close>

text \<open>
  A number a parser returns: NaN, positive infinity, or a finite value. \<open>Num q\<close> stands for
  the double nearest to the rational \<open>q\<close> (for an integer below \<open>2^53\<close> that is \<open>q\<close>
  itself); the rounding is not computed. A decimal literal of at least \<open>2^1024 - 2^970\<close>
  rounds to infinity.
\<close>

datatype jsnum = NaN | Infinity | Num rat

definition isNaN :: "jsnum \<Rightarrow> bool" where
  "isNaN x \<longleftrightarrow> x = NaN"

definition isFinite :: "jsnum \<Rightarrow> bool" where
  "isFinite x \<longleftrightarrow> (case x of Num q \<Rightarrow> True | _ \<Rightarrow> False)"

text \<open>
  The parsed colour \<^verbatim>\<open>{r, g, b, a}\<close>; the fields carry the record's name as a prefix.
\<close>

record color =
  color_r :: jsnum
  color_g :: jsnum
  color_b :: jsnum
  color_a :: jsnum

text \<open>
  \<^verbatim>\<open>Number.parseInt(s, 16)\<close> as a number, and the division by 255 of the alpha channel
  (NaN stays NaN).
\<close>

definition parseInt16 :: "jsstring \<Rightarrow> jsnum" where
  "parseInt16 s = (case js_parseInt s 16 of None \<Rightarrow> NaN | Some i \<Rightarrow> Num (of_int i))"

definition div255 :: "jsnum \<Rightarrow> jsnum" where
  "div255 x = (case x of Num q \<Rightarrow> Num (q / 255) | NaN \<Rightarrow> NaN | Infinity \<Rightarrow> Infinity)"

text \<open>
  \<^verbatim>\<open>
  function parseHexColor(color) {
      const value = (color ?? "").trim();
      if (!value.startsWith("#")) return null;
      const hex = value.slice(1);
      if (hex.length === 3) {
          return {
              r: Number.parseInt(hex[0] + hex[0], 16),
              g: Number.parseInt(hex[1] + hex[1], 16),
              b: Number.parseInt(hex[2] + hex[2], 16),
              a: 1
          };
      }
      if (hex.length === 6 || hex.length === 8) {
          const alpha = hex.length === 8 ? Number.parseInt(hex.slice(6, 8), 16) / 255 : 1;
          return {
              r: Number.parseInt(hex.slice(0, 2), 16),
              g: Number.parseInt(hex.slice(2, 4), 16),
              b: Number.parseInt(hex.slice(4, 6), 16),
              a: Number.isNaN(alpha) ? 1 : alpha
          };
      }
      return null;
  }
  \<close>
  \<open>None\<close> is \<^verbatim>\<open>null\<close>.
\<close>

definition startsWith_hash :: "jsstring \<Rightarrow> bool" where
  "startsWith_hash v = (case v of [] \<Rightarrow> False | c # cs \<Rightarrow> c = 0x23)"

definition parseHexColor :: "jsstring \<Rightarrow> color option" where
  "parseHexColor color =
     (let v = js_trim color
      in if \<not> startsWith_hash v then None
         else
           (let hex = js_slice_from v 1
            in if length hex = 3
               then Some \<lparr>color_r = parseInt16 [hex ! 0, hex ! 0],
                          color_g = parseInt16 [hex ! 1, hex ! 1],
                          color_b = parseInt16 [hex ! 2, hex ! 2],
                          color_a = Num 1\<rparr>
               else if length hex = 6 \<or> length hex = 8
               then (let alpha = (if length hex = 8 then div255 (parseInt16 (js_slice hex 6 8))
                                  else Num 1)
                     in Some \<lparr>color_r = parseInt16 (js_slice hex 0 2),
                                color_g = parseInt16 (js_slice hex 2 4),
                                color_b = parseInt16 (js_slice hex 4 6),
                                color_a = (if isNaN alpha then Num 1 else alpha)\<rparr>)
               else None))"

text \<open>
  \<^verbatim>\<open>
  function parseRgbColor(color) {
      const rgbMatch = /^rgba?\(([^)]+)\)$/i.exec((color ?? "").trim());
      if (!rgbMatch) return null;
      const channels = (rgbMatch[1].match(/[\d.]+/g) ?? [])
          .map(value => Number.parseFloat(value));
      if (channels.length < 3 || channels.slice(0, 3).some(Number.isNaN)) return null;
      return {
          r: channels[0],
          g: channels[1],
          b: channels[2],
          a: Number.isFinite(channels[3]) ? channels[3] : 1
      };
  }
  \<close>
  The two regular expressions are written out. \<open>rgb_match\<close> is the first one and gives
  its group: \<^verbatim>\<open>rgb\<close> in either case, an optional \<^verbatim>\<open>a\<close> in either case, \<^verbatim>\<open>(\<close>, one
  or more code units other than \<^verbatim>\<open>)\<close> (the group), \<^verbatim>\<open>)\<close>, and the end of the string.
  \<open>number_runs\<close> is \<^verbatim>\<open>match(/[\d.]+/g)\<close>: the maximal runs of digits and dots.
  \<open>parseFloat_run\<close> is \<^verbatim>\<open>Number.parseFloat\<close> on such a run: the digits before the
  first dot and the digits after it up to the next dot, NaN when both are empty.
\<close>

definition ci_char :: "jschar \<Rightarrow> jschar \<Rightarrow> jschar \<Rightarrow> bool" where
  "ci_char lower upper c \<longleftrightarrow> c = lower \<or> c = upper"

definition rgb_match :: "jsstring \<Rightarrow> jsstring option" where
  "rgb_match v =
     (case v of
        c1 # c2 # c3 # rest \<Rightarrow>
          if ci_char 0x72 0x52 c1 \<and> ci_char 0x67 0x47 c2 \<and> ci_char 0x62 0x42 c3
          then (let rest' = (case rest of
                               [] \<Rightarrow> []
                             | c # cs \<Rightarrow> if ci_char 0x61 0x41 c then cs else rest)
                in case rest' of
                     [] \<Rightarrow> None
                   | c # cs \<Rightarrow>
                       if c = 0x28
                       then (let body = takeWhile (\<lambda>x. x \<noteq> 0x29) cs;
                                 after = dropWhile (\<lambda>x. x \<noteq> 0x29) cs
                             in if body \<noteq> [] \<and> after = [0x29] then Some body else None)
                       else None)
          else None
      | _ \<Rightarrow> None)"

definition is_digit :: "jschar \<Rightarrow> bool" where
  "is_digit c \<longleftrightarrow> 0x30 \<le> c \<and> c \<le> 0x39"

definition digit_or_dot :: "jschar \<Rightarrow> bool" where
  "digit_or_dot c \<longleftrightarrow> is_digit c \<or> c = 0x2E"

fun runs_from :: "jsstring \<Rightarrow> jsstring \<Rightarrow> jsstring list" where
  "runs_from cur [] = (if cur = [] then [] else [cur])"
| "runs_from cur (c # cs) =
     (if digit_or_dot c then runs_from (cur @ [c]) cs
      else (if cur = [] then [] else [cur]) @ runs_from [] cs)"

definition number_runs :: "jsstring \<Rightarrow> jsstring list" where
  "number_runs s = runs_from [] s"

definition decimal_number :: "rat \<Rightarrow> jsnum" where
  "decimal_number q = (if q \<ge> 2 ^ 1024 - 2 ^ 970 then Infinity else Num q)"

definition parseFloat_run :: "jsstring \<Rightarrow> jsnum" where
  "parseFloat_run s =
     (let ip = takeWhile is_digit s;
          rest = dropWhile is_digit s;
          fp = (case rest of
                  [] \<Rightarrow> []
                | c # cs \<Rightarrow> if c = 0x2E then takeWhile is_digit cs else [])
      in if ip = [] \<and> fp = [] then NaN
         else decimal_number
                (of_int (digits_value 10 ip)
                 + of_int (digits_value 10 fp) / 10 ^ length fp))"

definition parseRgbColor :: "jsstring \<Rightarrow> color option" where
  "parseRgbColor color =
     (case rgb_match (js_trim color) of
        None \<Rightarrow> None
      | Some body \<Rightarrow>
          (let channels = map parseFloat_run (number_runs body)
           in if length channels < 3 \<or> list_ex isNaN (take 3 channels) then None
              else Some \<lparr>color_r = channels ! 0,
                         color_g = channels ! 1,
                         color_b = channels ! 2,
                         color_a = (case js_index channels 3 of
                                      None \<Rightarrow> Num 1
                                    | Some x \<Rightarrow> if isFinite x then x else Num 1)\<rparr>))"

text \<open>
  \<^verbatim>\<open>
  function parseColor(color) {
      return parseHexColor(color ?? "") ?? parseRgbColor(color ?? "");
  }
  \<close>
  The argument may be \<^verbatim>\<open>undefined\<close> (\<open>None\<close>).
\<close>

definition parseColor :: "jsstring option \<Rightarrow> color option" where
  "parseColor color =
     (case parseHexColor (or_empty color) of
        Some c \<Rightarrow> Some c
      | None \<Rightarrow> parseRgbColor (or_empty color))"

text \<open>
  The reference decoder of a hexadecimal colour: the value of a hexadecimal digit, and of
  a pair of them.
\<close>

definition is_hex_digit :: "jschar \<Rightarrow> bool" where
  "is_hex_digit c \<longleftrightarrow>
     (0x30 \<le> c \<and> c \<le> 0x39) \<or> (0x61 \<le> c \<and> c \<le> 0x66) \<or> (0x41 \<le> c \<and> c \<le> 0x46)"

definition hex_value :: "jschar \<Rightarrow> int" where
  "hex_value c =
     (if 0x30 \<le> c \<and> c \<le> 0x39 then uint c - 0x30
      else if 0x61 \<le> c \<and> c \<le> 0x66 then uint c - 0x61 + 10
      else uint c - 0x41 + 10)"

definition hex_pair :: "jschar \<Rightarrow> jschar \<Rightarrow> jsnum" where
  "hex_pair hi lo = Num (of_int (16 * hex_value hi + hex_value lo))"

section \<open>Typewriter: cancellable waits and the animation loop\<close>

subsection \<open>\<^verbatim>\<open>waitForDelay\<close>\<close>

text \<open>
  \<^verbatim>\<open>
  function waitForDelay(durationMs, signal) {
      if (!signal) {
          return new Promise(resolve => {
              window.setTimeout(resolve, durationMs);
          });
      }
      return new Promise((resolve, reject) => {
          if (signal.aborted) {
              reject(new Error("Hero typewriter aborted"));
              return;
          }
          const timeoutId = window.setTimeout(() => {
              signal.removeEventListener("abort", onAbort);
              resolve();
          }, durationMs);
          function onAbort() {
              window.clearTimeout(timeoutId);
              signal.removeEventListener("abort", onAbort);
              reject(new Error("Hero typewriter aborted"));
          }
          signal.addEventListener("abort", onAbort, { once: true });
      });
  }
  \<close>
  The promise the function returns is modelled with what settles it: the pending timeout
  (with its duration) and the \<^verbatim>\<open>abort\<close> listener. The signal is \<open>None\<close> when the caller
  passes none, and otherwise the value of \<^verbatim>\<open>signal.aborted\<close> at the call. The event loop
  then delivers events to the wait, one at a time: the timeout fires, or the signal
  dispatches \<^verbatim>\<open>abort\<close>. A promise settles once: \<open>settle\<close> leaves a settled promise as
  it is.
\<close>

datatype settlement = Resolved | Rejected js_exception

datatype promise = Pending | Settled settlement

record wait =
  wait_promise :: promise
  wait_timeout :: "nat option"
  wait_abort_listener :: bool

definition aborted_error :: js_exception where
  "aborted_error = Error (js_str ''Hero typewriter aborted'')"

definition settle :: "settlement \<Rightarrow> promise \<Rightarrow> promise" where
  "settle s p = (case p of Pending \<Rightarrow> Settled s | Settled s' \<Rightarrow> Settled s')"

definition waitForDelay :: "nat \<Rightarrow> bool option \<Rightarrow> wait" where
  "waitForDelay durationMs signal =
     (case signal of
        None \<Rightarrow>
          \<lparr>wait_promise = Pending, wait_timeout = Some durationMs, wait_abort_listener = False\<rparr>
      | Some aborted \<Rightarrow>
          if aborted
          then \<lparr>wait_promise = settle (Rejected aborted_error) Pending,
                wait_timeout = None, wait_abort_listener = False\<rparr>
          else \<lparr>wait_promise = Pending, wait_timeout = Some durationMs,
                wait_abort_listener = True\<rparr>)"

datatype wait_event = TimeoutFires | AbortDispatched

definition wait_deliver :: "wait_event \<Rightarrow> wait \<Rightarrow> wait" where
  "wait_deliver e w =
     (case e of
        TimeoutFires \<Rightarrow>
          (case wait_timeout w of
             None \<Rightarrow> w
           | Some d \<Rightarrow>
               w\<lparr>wait_abort_listener := False,
                 wait_promise := settle Resolved (wait_promise w),
                 wait_timeout := None\<rparr>)
      | AbortDispatched \<Rightarrow>
          if wait_abort_listener w
          then w\<lparr>wait_timeout := None,
                 wait_abort_listener := False,
                 wait_promise := settle (Rejected aborted_error) (wait_promise w)\<rparr>
          else w)"

subsection \<open>\<^verbatim>\<open>runHeroTypewriter\<close> and the start of a session\<close>

text \<open>
  \<^verbatim>\<open>
  async function runHeroTypewriter(lines, textElement, signal, highlightPattern = ...) {
      let lineIndex = 0;
      while (!signal.aborted) {
          const line = lines[lineIndex % lines.length];
          for (let count = 1; count <= line.length; count += 1) {
              if (signal.aborted) return;
              textElement.innerHTML = renderTypewriterLine(line.slice(0, count), highlightPattern);
              const jitterMs = Math.floor(Math.random() * HERO_TYPING_JITTER_MS);
              await waitForDelay(HERO_TYPING_DELAY_MS + jitterMs, signal);
          }
          await waitForDelay(HERO_HOLD_DELAY_MS, signal);
          for (let count = line.length - 1; count >= 0; count -= 1) {
              if (signal.aborted) return;
              textElement.innerHTML = renderTypewriterLine(line.slice(0, count), highlightPattern);
              await waitForDelay(HERO_ERASE_DELAY_MS, signal);
          }
          await waitForDelay(HERO_BETWEEN_LINES_DELAY_MS, signal);
          lineIndex = (lineIndex + 1) % lines.length;
      }
  }
  \<close>
  The asynchronous function is a state machine: it runs until it returns, throws, or
  reaches an \<^verbatim>\<open>await\<close>, where it is suspended on a wait until the wait's promise
  settles. \<open>run_resume\<close> is the code from one \<^verbatim>\<open>await\<close> to the next: a resolved wait
  continues the loop, a rejected one throws at the \<^verbatim>\<open>await\<close>, and since the function
  has no \<^verbatim>\<open>try\<close>, the exception leaves it (its own promise rejects). \<open>aborted\<close> is the
  value of \<^verbatim>\<open>signal.aborted\<close> when that code runs, \<open>jitterMs\<close> the random jitter it
  draws, and \<open>render\<close> is \<^verbatim>\<open>renderTypewriterLine\<close> with the session's pattern.
  \<^verbatim>\<open>startHeroTypewriter\<close> passes a non-empty array of lines (it falls back to the
  built-in lines); on an empty one \<^verbatim>\<open>line.length\<close> throws a TypeError.
\<close>

definition HERO_TYPING_DELAY_MS :: nat where "HERO_TYPING_DELAY_MS = 52"
definition HERO_TYPING_JITTER_MS :: nat where "HERO_TYPING_JITTER_MS = 26"
definition HERO_ERASE_DELAY_MS :: nat where "HERO_ERASE_DELAY_MS = 16"
definition HERO_HOLD_DELAY_MS :: nat where "HERO_HOLD_DELAY_MS = 3600"
definition HERO_BETWEEN_LINES_DELAY_MS :: nat where "HERO_BETWEEN_LINES_DELAY_MS = 120"

datatype await_point = AwaitTyping nat | AwaitHold | AwaitErase nat | AwaitBetweenLines

record typewriter =
  lineIndex :: nat
  innerHTML :: jsstring

datatype run_state =
  Suspended await_point typewriter wait
  | Returned typewriter
  | Threw js_exception typewriter

definition typing_from ::
  "(jsstring \<Rightarrow> jsstring) \<Rightarrow> bool \<Rightarrow> nat \<Rightarrow> jsstring \<Rightarrow> nat \<Rightarrow> typewriter \<Rightarrow> run_state" where
  "typing_from render aborted jitterMs line count tw =
     (if count \<le> length line
      then (if aborted then Returned tw
            else Suspended (AwaitTyping count)
                   (tw\<lparr>innerHTML := render (js_slice line 0 count)\<rparr>)
                   (waitForDelay (HERO_TYPING_DELAY_MS + jitterMs) (Some aborted)))
      else Suspended AwaitHold tw (waitForDelay HERO_HOLD_DELAY_MS (Some aborted)))"

definition erasing_from ::
  "(jsstring \<Rightarrow> jsstring) \<Rightarrow> bool \<Rightarrow> jsstring \<Rightarrow> int \<Rightarrow> typewriter \<Rightarrow> run_state" where
  "erasing_from render aborted line count tw =
     (if count \<ge> 0
      then (if aborted then Returned tw
            else Suspended (AwaitErase (nat count))
                   (tw\<lparr>innerHTML := render (js_slice line 0 (nat count))\<rparr>)
                   (waitForDelay HERO_ERASE_DELAY_MS (Some aborted)))
      else Suspended AwaitBetweenLines tw
             (waitForDelay HERO_BETWEEN_LINES_DELAY_MS (Some aborted)))"

definition loop_head ::
  "(jsstring \<Rightarrow> jsstring) \<Rightarrow> bool \<Rightarrow> nat \<Rightarrow> jsstring list \<Rightarrow> typewriter \<Rightarrow> run_state" where
  "loop_head render aborted jitterMs lines tw =
     (if aborted then Returned tw
      else if lines = [] then Threw TypeError tw
      else typing_from render aborted jitterMs (lines ! (lineIndex tw mod length lines)) 1 tw)"

definition runHeroTypewriter ::
  "(jsstring \<Rightarrow> jsstring) \<Rightarrow> bool \<Rightarrow> nat \<Rightarrow> jsstring list \<Rightarrow> jsstring \<Rightarrow> run_state" where
  "runHeroTypewriter render aborted jitterMs lines html =
     loop_head render aborted jitterMs lines \<lparr>lineIndex = 0, innerHTML = html\<rparr>"

definition run_resume ::
  "(jsstring \<Rightarrow> jsstring) \<Rightarrow> bool \<Rightarrow> nat \<Rightarrow> jsstring list
    \<Rightarrow> await_point \<Rightarrow> typewriter \<Rightarrow> settlement \<Rightarrow> run_state" where
  "run_resume render aborted jitterMs lines point tw s =
     (case s of
        Rejected e \<Rightarrow> Threw e tw
      | Resolved \<Rightarrow>
          (let line = lines ! (lineIndex tw mod length lines)
           in case point of
                AwaitTyping count \<Rightarrow> typing_from render aborted jitterMs line (count + 1) tw
              | AwaitHold \<Rightarrow> erasing_from render aborted line (int (length line) - 1) tw
              | AwaitErase count \<Rightarrow> erasing_from render aborted line (int count - 1) tw
              | AwaitBetweenLines \<Rightarrow>
                  loop_head render aborted jitterMs lines
                    (tw\<lparr>lineIndex := (lineIndex tw + 1) mod length lines\<rparr>)))"

text \<open>
  One turn of the event loop for a suspended run: an event is delivered to the wait; if
  that settles the wait's promise the run resumes, and otherwise it stays suspended.
\<close>

definition run_deliver ::
  "(jsstring \<Rightarrow> jsstring) \<Rightarrow> bool \<Rightarrow> nat \<Rightarrow> jsstring list \<Rightarrow> wait_event \<Rightarrow> run_state \<Rightarrow> run_state" where
  "run_deliver render aborted jitterMs lines e st =
     (case st of
        Suspended point tw w \<Rightarrow>
          (case wait_promise (wait_deliver e w) of
             Pending \<Rightarrow> Suspended point tw (wait_deliver e w)
           | Settled s \<Rightarrow> run_resume render aborted jitterMs lines point tw s)
      | Returned tw \<Rightarrow> Returned tw
      | Threw x tw \<Rightarrow> Threw x tw)"

text \<open>
  \<^verbatim>\<open>
      window.setTimeout(() => {
          if (signal.aborted) return;
          const runner = renderAsPairs ? runHeroPairTypewriter : runHeroTypewriter;
          void runner(resolvedLines, textElement, signal, highlightPattern).catch(error => {
              if (error instanceof Error && error.message === "Hero typewriter aborted") {
                  return;
              }
              console.error(error);
          });
      }, HERO_ANIMATION_START_DELAY_MS);
  \<close>
  The handler given to \<^verbatim>\<open>catch\<close> runs when the runner throws. \<open>typewriter_catch\<close> is
  what it adds to the console: nothing for the error of an aborted wait, the error itself
  for any other.
\<close>

definition typewriter_catch :: "js_exception \<Rightarrow> js_exception list" where
  "typewriter_catch error =
     (case error of
        Error message \<Rightarrow> if message = js_str ''Hero typewriter aborted'' then [] else [error]
      | TypeError \<Rightarrow> [error])"

text \<open>What a finished run leaves on the console.\<close>

definition console_errors :: "run_state \<Rightarrow> js_exception list" where
  "console_errors st = (case st of Threw x tw \<Rightarrow> typewriter_catch x | _ \<Rightarrow> [])"

subsection \<open>A page with three slides\<close>

text \<open>
  Three timeline entries, the second with a blank description; one slide per entry, each
  with one expand control (numbered as its slide), three triggers, and the modal in the
  document. The first slide is active and nothing is open.
\<close>

definition demo_control :: plus_control where
  "demo_control =
     \<lparr>checked = False, aria_expanded = ''false'', label_checked = False,
      container_is_open = False,
      icon = Some \<lparr>icon_animating = False, icon_animation = []\<rparr>\<rparr>"

definition demo_slides :: "slide_el list" where
  "demo_slides =
     [\<lparr>slide_is_active = True, slide_aria_hidden = ''false'', slide_tabindex = ''0'',
       slide_data_index = Some (js_str ''0''), slide_controls = [0]\<rparr>,
      \<lparr>slide_is_active = False, slide_aria_hidden = ''true'', slide_tabindex = ''-1'',
       slide_data_index = Some (js_str ''1''), slide_controls = [1]\<rparr>,
      \<lparr>slide_is_active = False, slide_aria_hidden = ''true'', slide_tabindex = ''-1'',
       slide_data_index = Some (js_str ''2''), slide_controls = [2]\<rparr>]"

definition demo_trigger :: trigger_el where
  "demo_trigger =
     \<lparr>trigger_is_active = False, trigger_aria_selected = ''false'',
      trigger_tabindex = ''-1'', trigger_aria_current = ''false''\<rparr>"

definition demo_entries :: "timeline_entry list" where
  "demo_entries =
     [\<lparr>entry_title = Some (js_str ''Engineer''), entry_subtitle = Some (js_str ''Acme''),
       entry_date = Some (js_str ''2020''), entry_description = Some (js_str ''Built the app'')\<rparr>,
      \<lparr>entry_title = Some (js_str ''Intern''), entry_subtitle = None,
       entry_date = Some (js_str ''2018''), entry_description = Some (js_str ''  '')\<rparr>,
      \<lparr>entry_title = Some (js_str ''Lead''), entry_subtitle = Some (js_str ''Initech''),
       entry_date = None, entry_description = Some (js_str ''Led the team'')\<rparr>]"

definition demo_page :: page where
  "demo_page =
     \<lparr>controls = (\<lambda>c. demo_control),
      slides = demo_slides,
      triggers = [demo_trigger, demo_trigger, demo_trigger],
      activeIndex = 0,
      previous_disabled = False,
      next_disabled = False,
      timeline_single = False,
      scrolled_into_view = [],
      modal = Some \<lparr>modal_is_open = False, modal_aria_hidden = ''true''\<rparr>,
      modal_title = Some [],
      modal_meta = Some [],
      modal_description = Some [],
      body_timeline_modal_open = False,
      activeTimelineModalCheckbox = None,
      renderedTimelineEntries = demo_entries,
      focused = None\<rparr>"

text \<open>The same page after the user has opened the detail modal for the first entry.\<close>

definition demo_page_open :: page where
  "demo_page_open =
     demo_page
       \<lparr>controls := (\<lambda>c. if c = 0 then plus_state demo_control True True else demo_control),
        modal := Some \<lparr>modal_is_open = True, modal_aria_hidden = ''false''\<rparr>,
        body_timeline_modal_open := True,
        activeTimelineModalCheckbox := Some 0\<rparr>"

text \<open>
  The two pages just after the browser has checked a control and before the change handler
  runs: the control of the second slide on the first page, and the control of the third
  slide on the page where the modal is open for the first.
\<close>

definition demo_page_toggled :: page where
  "demo_page_toggled =
     demo_page\<lparr>controls := (controls demo_page)(1 := demo_control\<lparr>checked := True\<rparr>)\<rparr>"

definition demo_page_open_toggled :: page where
  "demo_page_open_toggled =
     demo_page_open
       \<lparr>controls := (controls demo_page_open)(2 := demo_control\<lparr>checked := True\<rparr>)\<rparr>"

section \<open>Theorems\<close>

subsection \<open>Project tiles\<close>

lemma js_rem_nonneg_bounds:
  assumes "0 \<le> a" and "0 < n"
  shows "0 \<le> js_rem a n" and "js_rem a n < n"
  using assms by (simp_all add: js_rem_def sgn_if)

lemma resolve_gradientPalette_nonempty: "resolve_gradientPalette opt \<noteq> []"
  by (simp add: resolve_gradientPalette_def PROJECT_GRADIENT_PALETTE_def split: option.split)

lemma hashString_nonneg: "0 \<le> hashString v"
  by (simp add: hashString_def)

text \<open>
  C10. \<^verbatim>\<open>hashString\<close> returns a non-negative integer for every string, and the palette
  lookup \<^verbatim>\<open>gradientPalette[projectHash % gradientPalette.length]\<close> of
  \<^verbatim>\<open>decorateProjectTiles\<close> is always inside the resolved (non-empty) palette: it never
  reads \<^verbatim>\<open>undefined\<close>, whatever the options, the row pattern and the tile's key.
\<close>

theorem C10_hashString_palette_in_bounds:
  "0 \<le> hashString v
   \<and> resolve_gradientPalette opt \<noteq> []
   \<and> (\<exists>palette. js_index (resolve_gradientPalette opt)
                    (js_rem (hashString v) (int (length (resolve_gradientPalette opt))))
                  = Some palette
                \<and> palette \<in> set (resolve_gradientPalette opt))
   \<and> project_gradient enableGradients (resolve_gradientPalette opt) patternLength v
       \<noteq> Inl TypeError"
proof -
  let ?gp = "resolve_gradientPalette opt"
  let ?i = "js_rem (hashString v) (int (length ?gp))"
  have ne: "?gp \<noteq> []" by (rule resolve_gradientPalette_nonempty)
  then have pos: "0 < int (length ?gp)" by simp
  have lo: "0 \<le> ?i" and hi: "?i < int (length ?gp)"
    using js_rem_nonneg_bounds [OF hashString_nonneg pos] by blast+
  have idx: "js_index ?gp ?i = Some (?gp ! nat ?i)"
    using lo hi by (simp add: js_index_def)
  have mem: "?gp ! nat ?i \<in> set ?gp"
    using lo hi by (intro nth_mem) linarith
  have "project_gradient enableGradients ?gp patternLength v \<noteq> Inl TypeError"
    using idx by (simp add: project_gradient_def Let_def)
  with ne idx mem show ?thesis
    using hashString_nonneg by blast
qed

subsection \<open>Typewriter pairs\<close>

declare buildTypewriterPairs_loop.simps [simp del]

lemma buildTypewriterPairs_loop_drop:
  "buildTypewriterPairs_loop lines index pairs = pairs @ pairs_spec (drop index lines)"
proof (induction lines index pairs rule: buildTypewriterPairs_loop.induct)
  case (1 lines index pairs)
  show ?case
  proof (cases "index < length lines")
    case False
    then show ?thesis
      by (simp add: buildTypewriterPairs_loop.simps [of lines index] pairs_spec_def)
  next
    case True
    show ?thesis
    proof (cases "index + 1 < length lines")
      case True
      then have d: "drop index lines = lines ! index # lines ! (index + 1) # drop (index + 2) lines"
        by (metis Cons_nth_drop_Suc Suc_eq_plus1 add_2_eq_Suc' add_lessD1)
      show ?thesis
        using 1 True \<open>index < length lines\<close>
        apply (subst buildTypewriterPairs_loop.simps)
        apply (simp add: d pairs_spec_def Let_def js_elem_or_empty_def trimmed_pair_def both_empty_def)
        done
    next
      case False
      with True have d: "drop index lines = [lines ! index]" and e: "drop (index + 2) lines = []"
        by (simp_all add: Cons_nth_drop_Suc [symmetric])
      show ?thesis
        using 1 False True
        apply (subst buildTypewriterPairs_loop.simps)
        apply (simp add: d e pairs_spec_def Let_def js_elem_or_empty_def trimmed_pair_def both_empty_def)
        done
    qed
  qed
qed

text \<open>
  C8. For every flat list of strings, \<^verbatim>\<open>buildTypewriterPairs\<close> groups consecutive elements
  two at a time into pairs with both parts trimmed, an odd trailing element becomes a
  question with an empty answer, and a pair whose trimmed parts are both empty is dropped;
  and \<^verbatim>\<open>buildTypewriterPairs(["Q1","A1","Q2"])\<close> is
  \<^verbatim>\<open>[{question:"Q1",answer:"A1"}, {question:"Q2",answer:""}]\<close>.
\<close>

theorem C8_buildTypewriterPairs_groups_in_twos:
  "buildTypewriterPairs lines
     = filter (\<lambda>p. \<not> (question p = [] \<and> answer p = []))
         (map (\<lambda>qa. \<lparr>question = js_trim (fst qa), answer = js_trim (snd qa)\<rparr>)
            (group_in_twos lines))
   \<and> buildTypewriterPairs [js_str ''Q1'', js_str ''A1'', js_str ''Q2'']
     = [\<lparr>question = js_str ''Q1'', answer = js_str ''A1''\<rparr>,
        \<lparr>question = js_str ''Q2'', answer = []\<rparr>]"
proof -
  have spec: "pairs_spec ls
     = filter (\<lambda>p. \<not> (question p = [] \<and> answer p = []))
         (map (\<lambda>qa. \<lparr>question = js_trim (fst qa), answer = js_trim (snd qa)\<rparr>)
            (group_in_twos ls))" for ls
    by (simp add: pairs_spec_def both_empty_def trimmed_pair_def [abs_def])
  have gen: "buildTypewriterPairs ls = pairs_spec ls" for ls
    by (simp add: buildTypewriterPairs_def buildTypewriterPairs_loop_drop)
  have ex: "pairs_spec [js_str ''Q1'', js_str ''A1'', js_str ''Q2'']
     = [\<lparr>question = js_str ''Q1'', answer = js_str ''A1''\<rparr>,
        \<lparr>question = js_str ''Q2'', answer = []\<rparr>]"
    by (simp add: pairs_spec_def trimmed_pair_def both_empty_def js_trim_def js_str_def
        js_whitespace_def)
  show ?thesis
    using spec gen ex by simp
qed

subsection \<open>HTML escaping and keyword highlighting\<close>

lemma js_str_vals:
  "js_str ''&amp;'' = [0x26, 0x61, 0x6D, 0x70, 0x3B]"
  "js_str ''&lt;'' = [0x26, 0x6C, 0x74, 0x3B]"
  "js_str ''&gt;'' = [0x26, 0x67, 0x74, 0x3B]"
  "js_str ''&quot;'' = [0x26, 0x71, 0x75, 0x6F, 0x74, 0x3B]"
  "js_str ''&#39;'' = [0x26, 0x23, 0x33, 0x39, 0x3B]"
  by (simp_all add: js_str_def)

lemma replaceAll_char_Nil [simp]: "replaceAll_char c r [] = []"
  by (simp add: replaceAll_char_def)

lemma replaceAll_char_append [simp]:
  "replaceAll_char c r (s @ t) = replaceAll_char c r s @ replaceAll_char c r t"
  by (simp add: replaceAll_char_def)

lemma replaceAll_char_Cons:
  "replaceAll_char c r (x # s) = (if x = c then r else [x]) @ replaceAll_char c r s"
  by (simp add: replaceAll_char_def)

lemma escapeHTML_Nil [simp]: "escapeHTML [] = []"
  by (simp add: escapeHTML_def)

lemma escapeHTML_single: "escapeHTML [c] = escape_char c"
  by (simp add: escapeHTML_def escape_char_def js_str_vals replaceAll_char_Cons)

lemma escapeHTML_append: "escapeHTML (s @ t) = escapeHTML s @ escapeHTML t"
  by (simp add: escapeHTML_def)

lemma escapeHTML_chars: "escapeHTML s = concat (map escape_char s)"
proof (induction s)
  case Nil
  show ?case by simp
next
  case (Cons c s)
  have "escapeHTML (c # s) = escapeHTML [c] @ escapeHTML s"
    using escapeHTML_append [of "[c]" s] by simp
  with Cons show ?case by (simp add: escapeHTML_single)
qed

lemma escape_char_safe: "x \<in> set (escape_char c) \<Longrightarrow> \<not> markup_char x"
  by (auto simp: escape_char_def markup_char_def js_str_vals split: if_splits)

lemma escapeHTML_safe: "x \<in> set (escapeHTML s) \<Longrightarrow> \<not> markup_char x"
  by (auto simp: escapeHTML_chars dest: escape_char_safe)


lemma highlight_step_pair:
  "highlight_step line (index, term) (currentIndex, highlighted) =
     (index + length term,
      highlighted @ escapeHTML (js_slice line currentIndex index)
                  @ accent_open @ escapeHTML term @ accent_close)"
  by (simp add: highlight_step_def)

lemma fold_highlight_step:
  "fold (highlight_step line) ms (cur, hl) = (cur', hl') \<Longrightarrow>
   hl' @ escapeHTML (js_slice_from line cur') = hl @ concat (map segment_markup (segments_from line cur ms))"
proof (induction ms arbitrary: cur hl)
  case Nil
  then show ?case by simp
next
  case (Cons m ms)
  obtain index "term" where m: "m = (index, term)" by (cases m)
  from Cons.prems have
    "fold (highlight_step line) ms
       (index + length term,
        hl @ escapeHTML (js_slice line cur index) @ accent_open @ escapeHTML term @ accent_close)
     = (cur', hl')"
    by (simp add: m highlight_step_pair)
  from Cons.IH [OF this] show ?case by (simp add: m)
qed

lemma segments_from_text:
  "matchAll_result line cur ms \<Longrightarrow>
   concat (map segment_text (segments_from line cur ms)) = drop cur line"
proof (induction ms arbitrary: cur)
  case Nil
  show ?case by (simp add: js_slice_from_def)
next
  case (Cons m ms)
  obtain index "term" where m: "m = (index, term)" by (cases m)
  from Cons.prems have le: "cur \<le> index"
    and t: "term = take (length term) (drop index line)"
    and rest: "matchAll_result line (index + length term) ms"
    by (simp_all add: m js_slice_def)
  have "drop cur line = take (index - cur) (drop cur line) @ drop (index - cur) (drop cur line)"
    by (rule append_take_drop_id [symmetric])
  also have "drop (index - cur) (drop cur line) = drop index line"
    using le by simp
  also have "drop index line = take (length term) (drop index line) @ drop (length term) (drop index line)"
    by (rule append_take_drop_id [symmetric])
  also have "drop (length term) (drop index line) = drop (index + length term) line"
    by (simp add: add.commute)
  finally have "drop cur line =
      js_slice line cur index @ term @ drop (index + length term) line"
    using t by (simp add: js_slice_def)
  with Cons.IH [OF rest] show ?case by (simp add: m)
qed

lemma highlightHeroLine_segments:
  "highlightHeroLine line ms = concat (map segment_markup (segments_from line 0 ms))"
proof (cases "ms = []")
  case True
  then show ?thesis by (simp add: highlightHeroLine_def js_slice_from_def)
next
  case False
  obtain cur' hl' where f: "fold (highlight_step line) ms (0, []) = (cur', hl')"
    by (cases "fold (highlight_step line) ms (0, [])")
  from fold_highlight_step [OF f] False f show ?thesis
    by (simp add: highlightHeroLine_def)
qed

lemma segments_from_offsets:
  "matchAll_result line cur ms \<Longrightarrow> match_offsets cur (segments_from line cur ms) = ms"
proof (induction ms arbitrary: cur)
  case Nil
  show ?case by simp
next
  case (Cons m ms)
  obtain index "term" where m: "m = (index, term)" by (cases m)
  from Cons.prems have le: "cur \<le> index" and inside: "index + length term \<le> length line"
    and rest: "matchAll_result line (index + length term) ms"
    by (simp_all add: m)
  have "length (js_slice line cur index) = index - cur"
    using inside by (simp add: js_slice_def)
  then have "cur + length (js_slice line cur index) = index"
    using le by simp
  with Cons.IH [OF rest] show ?case
    by (simp add: m)
qed

text \<open>
  C7. For every line and every highlight pattern (through the matches \<^verbatim>\<open>matchAll\<close>
  returns for it), the rendered markup is the markup of the line's segmentation by those
  matches: the literal text before the first match, the first match, the literal text up to
  the next match, and so on to the end of the line. The segments are the whole line, in
  order and without loss; the segments wrapped in the accent span are exactly the pattern's
  matches, each at its own index in the line; every segment, literal or match, is
  HTML-escaped. Escaping replaces every \<^verbatim>\<open>&\<close>, \<^verbatim>\<open><\<close>, \<^verbatim>\<open>>\<close>, \<^verbatim>\<open>"\<close> and
  \<^verbatim>\<open>'\<close> by its entity, code unit by code unit, so escaped text holds no \<^verbatim>\<open><\<close>,
  \<^verbatim>\<open>>\<close>, \<^verbatim>\<open>"\<close> or \<^verbatim>\<open>'\<close> at all: the only tags of the output are the
  highlighter's own.
\<close>

theorem C7_highlight_escapes_all_text:
  assumes "matchAll_result line 0 matches"
  shows "highlightHeroLine line matches
           = concat (map segment_markup (segments_from line 0 matches))
         \<and> concat (map segment_text (segments_from line 0 matches)) = line
         \<and> match_offsets 0 (segments_from line 0 matches) = matches
         \<and> (\<forall>s. escapeHTML s = concat (map escape_char s))
         \<and> (\<forall>s. \<forall>x \<in> set (escapeHTML s). \<not> markup_char x)"
proof -
  let ?segs = "segments_from line 0 matches"
  have markup: "highlightHeroLine line matches = concat (map segment_markup ?segs)"
    by (rule highlightHeroLine_segments)
  have whole: "concat (map segment_text ?segs) = line"
    using segments_from_text [OF assms] by simp
  have at_index: "match_offsets 0 ?segs = matches"
    by (rule segments_from_offsets [OF assms])
  show ?thesis
    using markup whole at_index escapeHTML_chars escapeHTML_safe by blast
qed

text \<open>
  The theorem at the line \<^verbatim>\<open><ci> & "qa"\<close> with the matches \<^verbatim>\<open>ci\<close> (index 1) and
  \<^verbatim>\<open>qa\<close> (index 8).
\<close>

theorem C7_highlight_witness:
  "matchAll_result (js_str ''<ci> & \"qa\"'') 0 [(1, js_str ''ci''), (8, js_str ''qa'')]
   \<and> segments_from (js_str ''<ci> & \"qa\"'') 0 [(1, js_str ''ci''), (8, js_str ''qa'')]
       = [Literal (js_str ''<''), Match (js_str ''ci''), Literal (js_str ''> & \"''),
          Match (js_str ''qa''), Literal (js_str ''\"'')]
   \<and> match_offsets 0
         (segments_from (js_str ''<ci> & \"qa\"'') 0 [(1, js_str ''ci''), (8, js_str ''qa'')])
       = [(1, js_str ''ci''), (8, js_str ''qa'')]
   \<and> highlightHeroLine (js_str ''<ci> & \"qa\"'') [(1, js_str ''ci''), (8, js_str ''qa'')]
       = js_str ''&lt;<span class=\"hero-typewriter-accent\">ci</span>&gt; &amp; &quot;<span class=\"hero-typewriter-accent\">qa</span>&quot;''"
proof -
  let ?line = "js_str ''<ci> & \"qa\"''"
  let ?ms = "[(1, js_str ''ci''), (8, js_str ''qa'')] :: regex_match list"
  have wf: "matchAll_result ?line 0 ?ms"
    by (simp add: js_str_def js_slice_def)
  note T = C7_highlight_escapes_all_text [OF wf]
  have segs: "segments_from ?line 0 ?ms
       = [Literal (js_str ''<''), Match (js_str ''ci''), Literal (js_str ''> & \"''),
          Match (js_str ''qa''), Literal (js_str ''\"'')]"
    by (simp add: js_str_def js_slice_def js_slice_from_def)
  from T have offs: "match_offsets 0 (segments_from ?line 0 ?ms) = ?ms"
    by blast
  from T have "highlightHeroLine ?line ?ms
                 = concat (map segment_markup (segments_from ?line 0 ?ms))"
    by blast
  also have "\<dots> = js_str ''&lt;<span class=\"hero-typewriter-accent\">ci</span>&gt; &amp; &quot;<span class=\"hero-typewriter-accent\">qa</span>&quot;''"
    by (simp only: segs)
       (simp add: escapeHTML_chars escape_char_def accent_open_def accent_close_def js_str_def)
  finally have ev: "highlightHeroLine ?line ?ms
       = js_str ''&lt;<span class=\"hero-typewriter-accent\">ci</span>&gt; &amp; &quot;<span class=\"hero-typewriter-accent\">qa</span>&quot;''" .
  show ?thesis
    using wf segs offs ev by blast
qed

text \<open>
  The position of a match decides which occurrence is wrapped: in \<^verbatim>\<open>ci ci\<close> with the
  one match at index 3, the second \<^verbatim>\<open>ci\<close> gets the span and the first does not.
\<close>

lemma highlightHeroLine_second_occurrence:
  "highlightHeroLine (js_str ''ci ci'') [(3, js_str ''ci'')]
     = js_str ''ci <span class=\"hero-typewriter-accent\">ci</span>''"
  by (simp add: highlightHeroLine_def highlight_step_pair escapeHTML_chars escape_char_def
      accent_open_def accent_close_def js_slice_def js_slice_from_def js_str_def)

subsection \<open>Contrast ratio\<close>

lemma toLinearChannel_nonneg: "0 \<le> channel \<Longrightarrow> 0 \<le> toLinearChannel channel"
  by (simp add: toLinearChannel_def Let_def)

lemma relativeLuminance_nonneg:
  assumes "rgb_in_range c"
  shows "0 \<le> relativeLuminance c"
proof -
  from assms have "0 \<le> toLinearChannel (rgb_r c)" "0 \<le> toLinearChannel (rgb_g c)"
    "0 \<le> toLinearChannel (rgb_b c)"
    by (simp_all add: rgb_in_range_def toLinearChannel_nonneg)
  then show ?thesis
    by (simp add: relativeLuminance_def)
qed

text \<open>
  C9. For every RGB colour \<open>a\<close> (channels in \<open>[0, 255]\<close>), \<^verbatim>\<open>contrastRatio(a, a)\<close> is 1;
  for every two colours \<^verbatim>\<open>contrastRatio(a, b) = contrastRatio(b, a)\<close>; and the ratio is
  \<open>(L_lighter + 0.05) / (L_darker + 0.05)\<close> over the relative luminances of the two.
\<close>

theorem C9_contrastRatio_self_and_symmetric:
  "(rgb_in_range a \<longrightarrow> contrastRatio a a = 1)
   \<and> contrastRatio a c = contrastRatio c a
   \<and> contrastRatio a c
       = (max (relativeLuminance a) (relativeLuminance c) + 0.05)
         / (min (relativeLuminance a) (relativeLuminance c) + 0.05)"
proof -
  have self: "contrastRatio a a = 1" if "rgb_in_range a"
  proof -
    from relativeLuminance_nonneg [OF that] have "relativeLuminance a + 0.05 \<noteq> 0"
      by simp
    then show ?thesis
      by (simp add: contrastRatio_def Let_def)
  qed
  have sym: "contrastRatio a c = contrastRatio c a"
    by (simp add: contrastRatio_def Let_def max.commute min.commute)
  show ?thesis
    using self sym by (simp add: contrastRatio_def Let_def)
qed

text \<open>The theorem at the page's light surface colour and its dark text colour.\<close>

theorem C9_contrastRatio_witness:
  "rgb_in_range \<lparr>rgb_r = 236, rgb_g = 243, rgb_b = 251\<rparr>
   \<and> contrastRatio \<lparr>rgb_r = 236, rgb_g = 243, rgb_b = 251\<rparr> \<lparr>rgb_r = 236, rgb_g = 243, rgb_b = 251\<rparr> = 1
   \<and> contrastRatio \<lparr>rgb_r = 236, rgb_g = 243, rgb_b = 251\<rparr> \<lparr>rgb_r = 15, rgb_g = 35, rgb_b = 66\<rparr>
       = contrastRatio \<lparr>rgb_r = 15, rgb_g = 35, rgb_b = 66\<rparr> \<lparr>rgb_r = 236, rgb_g = 243, rgb_b = 251\<rparr>"
proof -
  have h: "rgb_in_range \<lparr>rgb_r = 236, rgb_g = 243, rgb_b = 251\<rparr>"
    by (simp add: rgb_in_range_def)
  from C9_contrastRatio_self_and_symmetric
         [of "\<lparr>rgb_r = 236, rgb_g = 243, rgb_b = 251\<rparr>" "\<lparr>rgb_r = 15, rgb_g = 35, rgb_b = 66\<rparr>"] h
  show ?thesis by blast
qed

subsection \<open>Expand controls\<close>

lemma plus_state_closed: "closed_no_animation (plus_state c False False)"
  by (simp add: plus_state_def closed_no_animation_def split: option.split)

lemma plus_state_open: "open_animated (plus_state c True True)"
  by (simp add: plus_state_def open_animated_def split: option.split)

lemma plus_state_idem: "plus_state (plus_state c isOpen animate) isOpen animate = plus_state c isOpen animate"
  by (simp add: plus_state_def split: option.split)

lemma fold_setTimelinePlusState:
  "fold (\<lambda>c. setTimelinePlusState c isOpen animate) cs p =
     p\<lparr>controls := (\<lambda>c. if c \<in> set cs then plus_state (controls p c) isOpen animate
                          else controls p c)\<rparr>"
proof (induction cs arbitrary: p)
  case Nil
  show ?case by simp
next
  case (Cons x cs)
  let ?q = "setTimelinePlusState x isOpen animate p"
  have fn: "(\<lambda>c. if c \<in> set cs then plus_state (controls ?q c) isOpen animate
                 else controls ?q c)
        = (\<lambda>c. if c \<in> set (x # cs) then plus_state (controls p c) isOpen animate
                else controls p c)"
    by (rule ext) (simp add: plus_state_idem setTimelinePlusState_def)
  have "fold (\<lambda>c. setTimelinePlusState c isOpen animate) (x # cs) p
      = fold (\<lambda>c. setTimelinePlusState c isOpen animate) cs ?q"
    by simp
  also have "\<dots> = ?q\<lparr>controls := (\<lambda>c. if c \<in> set cs
                                      then plus_state (controls ?q c) isOpen animate
                                      else controls ?q c)\<rparr>"
    by (rule Cons.IH)
  also have "\<dots> = ?q\<lparr>controls := (\<lambda>c. if c \<in> set (x # cs)
                                      then plus_state (controls p c) isOpen animate
                                      else controls p c)\<rparr>"
    by (simp only: fn)
  also have "\<dots> = p\<lparr>controls := (\<lambda>c. if c \<in> set (x # cs)
                                     then plus_state (controls p c) isOpen animate
                                     else controls p c)\<rparr>"
    by (simp add: setTimelinePlusState_def)
  finally show ?case .
qed

lemma clearTimelinePlusInSlide_eq:
  "clearTimelinePlusInSlide slide animate p =
     p\<lparr>controls := (\<lambda>c. if c \<in> set (slide_controls slide)
                          then plus_state (controls p c) False animate
                          else controls p c)\<rparr>"
  by (simp add: clearTimelinePlusInSlide_def fold_setTimelinePlusState)

subsection \<open>The pager's loop over the slides\<close>

lemma slide_controls_mark_slide [simp]: "slide_controls (mark_slide a s) = slide_controls s"
  by (simp add: mark_slide_def)

lemma length_slides_marked [simp]: "length (slides_marked active n ss) = length ss"
  by (simp add: slides_marked_def)

lemma nth_slides_marked:
  "j < length ss \<Longrightarrow>
   slides_marked active n ss ! j
     = (if j < n then mark_slide (int j = active) (ss ! j) else ss ! j)"
  by (simp add: slides_marked_def nth_enumerate_eq)

lemma slides_marked_0 [simp]: "slides_marked active 0 ss = ss"
  by (rule nth_equalityI) (simp_all add: nth_slides_marked)

lemma slides_marked_Suc:
  assumes "n < length ss"
  shows "(slides_marked active n ss)[n := mark_slide (int n = active) (ss ! n)]
           = slides_marked active (Suc n) ss"
proof (rule nth_equalityI)
  show "length ((slides_marked active n ss)[n := mark_slide (int n = active) (ss ! n)])
          = length (slides_marked active (Suc n) ss)"
    by simp
next
  fix j
  assume "j < length ((slides_marked active n ss)[n := mark_slide (int n = active) (ss ! n)])"
  then have j: "j < length ss" by simp
  show "(slides_marked active n ss)[n := mark_slide (int n = active) (ss ! n)] ! j
          = slides_marked active (Suc n) ss ! j"
    using j assms by (cases "j = n") (auto simp: nth_slides_marked nth_list_update)
qed

lemma controls_cleared_0 [simp]: "controls_cleared active 0 ss st = st"
  by (rule ext) (simp add: controls_cleared_def in_inactive_slide_def)

lemma in_inactive_slide_Suc:
  "in_inactive_slide active (Suc n) ss c \<longleftrightarrow>
     in_inactive_slide active n ss c \<or> (int n \<noteq> active \<and> c \<in> set (slide_controls (ss ! n)))"
  by (auto simp: in_inactive_slide_def less_Suc_eq)

lemma controls_cleared_Suc_inactive:
  assumes "int n \<noteq> active"
  shows "(\<lambda>c. if c \<in> set (slide_controls (ss ! n))
              then plus_state (controls_cleared active n ss st c) False False
              else controls_cleared active n ss st c)
         = controls_cleared active (Suc n) ss st"
  using assms
  by (intro ext) (simp add: controls_cleared_def in_inactive_slide_Suc plus_state_idem)

lemma controls_cleared_Suc_active:
  assumes "int n = active"
  shows "controls_cleared active (Suc n) ss st = controls_cleared active n ss st"
  using assms by (intro ext) (simp add: controls_cleared_def in_inactive_slide_Suc)

lemma fold_activate_slide:
  "n \<le> length (slides p) \<Longrightarrow>
   fold (activate_slide active) [0..<n] p =
     p\<lparr>slides := slides_marked active n (slides p),
       controls := controls_cleared active n (slides p) (controls p)\<rparr>"
proof (induction n)
  case 0
  show ?case by simp
next
  case (Suc n)
  let ?q = "p\<lparr>slides := slides_marked active n (slides p),
               controls := controls_cleared active n (slides p) (controls p)\<rparr>"
  from Suc.prems have n: "n < length (slides p)" by simp
  have "fold (activate_slide active) [0..<Suc n] p
          = activate_slide active n (fold (activate_slide active) [0..<n] p)"
    by simp
  also have "\<dots> = activate_slide active n ?q"
    using Suc.IH n by simp
  also have "\<dots> = p\<lparr>slides := slides_marked active (Suc n) (slides p),
                      controls := controls_cleared active (Suc n) (slides p) (controls p)\<rparr>"
  proof (cases "int n = active")
    case True
    then show ?thesis
      using n slides_marked_Suc [OF n, of active]
      by (simp add: activate_slide_def Let_def nth_slides_marked controls_cleared_Suc_active)
  next
    case False
    then show ?thesis
      using n slides_marked_Suc [OF n, of active]
        controls_cleared_Suc_inactive [OF False, of "slides p" "controls p"]
      by (simp add: activate_slide_def Let_def nth_slides_marked clearTimelinePlusInSlide_eq
          cong: if_cong)
  qed
  finally show ?case .
qed

subsection \<open>\<^verbatim>\<open>setActiveSlide\<close>\<close>

lemma slide_controls_nth_marked:
  "j < length ss \<Longrightarrow> slide_controls (slides_marked a n ss ! j) = slide_controls (ss ! j)"
  by (simp add: nth_slides_marked)

lemma slide_contains_marked:
  assumes "slides q = slides_marked a n (slides p)"
  shows "slide_contains q i c = slide_contains p i c"
proof (cases "0 \<le> i \<and> i < int (length (slides p))")
  case True
  then have "nat i < length (slides p)" by linarith
  with True assms show ?thesis
    by (simp add: slide_contains_def js_index_def slide_controls_nth_marked)
next
  case False
  with assms show ?thesis
    by (auto simp: slide_contains_def js_index_def)
qed

lemma closeTimelineJobModal_frame:
  "activeIndex (closeTimelineJobModal rf p) = activeIndex p"
  "slides (closeTimelineJobModal rf p) = slides p"
  "triggers (closeTimelineJobModal rf p) = triggers p"
  "renderedTimelineEntries (closeTimelineJobModal rf p) = renderedTimelineEntries p"
  by (simp_all add: closeTimelineJobModal_def setTimelinePlusState_def Let_def
      split: option.split)

lemma closeTimelineJobModal_no_focus:
  "focused (closeTimelineJobModal False p) = focused p"
  by (simp add: closeTimelineJobModal_def setTimelinePlusState_def Let_def split: option.split)

lemma closeTimelineJobModal_controls:
  "controls (closeTimelineJobModal rf p) c = controls p c
   \<or> closed_no_animation (controls (closeTimelineJobModal rf p) c)"
  by (simp add: closeTimelineJobModal_def setTimelinePlusState_def Let_def plus_state_closed
      split: option.split)

lemma closeTimelineJobModal_owner:
  assumes "modal p = Some m" and "activeTimelineModalCheckbox p = Some c"
  shows "modal (closeTimelineJobModal rf p)
           = Some (m\<lparr>modal_is_open := False, modal_aria_hidden := ''true''\<rparr>)"
    and "body_timeline_modal_open (closeTimelineJobModal rf p) = False"
    and "activeTimelineModalCheckbox (closeTimelineJobModal rf p) = None"
    and "closed_no_animation (controls (closeTimelineJobModal rf p) c)"
  using assms
  by (simp_all add: closeTimelineJobModal_def setTimelinePlusState_def Let_def plus_state_closed)

lemma setActiveSlide_mark_eq:
  "setActiveSlide_mark active b p =
     keepTriggerVisible active b
       (p\<lparr>activeIndex := active,
          slides := slides_marked active (length (slides p)) (slides p),
          controls := controls_cleared active (length (slides p)) (slides p) (controls p),
          triggers := map (activate_trigger active) (enumerate 0 (triggers p)),
          previous_disabled := (int (length (slides p)) \<le> 1),
          next_disabled := (int (length (slides p)) \<le> 1),
          timeline_single := (int (length (slides p)) \<le> 1)\<rparr>)"
  by (simp add: setActiveSlide_mark_def Let_def fold_activate_slide)

lemma setActiveSlide_mark_fields:
  "activeIndex (setActiveSlide_mark active b p) = active"
  "slides (setActiveSlide_mark active b p) = slides_marked active (length (slides p)) (slides p)"
  "controls (setActiveSlide_mark active b p)
     = controls_cleared active (length (slides p)) (slides p) (controls p)"
  "triggers (setActiveSlide_mark active b p) = map (activate_trigger active) (enumerate 0 (triggers p))"
  "modal (setActiveSlide_mark active b p) = modal p"
  "body_timeline_modal_open (setActiveSlide_mark active b p) = body_timeline_modal_open p"
  "activeTimelineModalCheckbox (setActiveSlide_mark active b p) = activeTimelineModalCheckbox p"
  "focused (setActiveSlide_mark active b p) = focused p"
  "renderedTimelineEntries (setActiveSlide_mark active b p) = renderedTimelineEntries p"
  by (simp_all add: setActiveSlide_mark_eq keepTriggerVisible_def split: option.split)

lemma slide_contains_mark:
  "slide_contains (setActiveSlide_mark active b p) i c = slide_contains p i c"
  by (rule slide_contains_marked) (simp add: setActiveSlide_mark_fields)

lemma js_index_None_iff: "js_index xs i = None \<longleftrightarrow> \<not> (0 \<le> i \<and> i < int (length xs))"
  by (simp add: js_index_def)

lemma focus_trigger_frame:
  "activeIndex (focus_trigger i p) = activeIndex p"
  "slides (focus_trigger i p) = slides p"
  "controls (focus_trigger i p) = controls p"
  "triggers (focus_trigger i p) = triggers p"
  "modal (focus_trigger i p) = modal p"
  "body_timeline_modal_open (focus_trigger i p) = body_timeline_modal_open p"
  "activeTimelineModalCheckbox (focus_trigger i p) = activeTimelineModalCheckbox p"
  "renderedTimelineEntries (focus_trigger i p) = renderedTimelineEntries p"
  by (simp_all add: focus_trigger_def keepTriggerVisible_def split: option.split)

lemma focus_trigger_focused:
  "focused (focus_trigger i p)
     = (if js_index (triggers p) i \<noteq> None then Some (FocusTrigger (nat i)) else focused p)"
  by (auto simp: focus_trigger_def keepTriggerVisible_def split: option.split)

lemma setActiveSlide_activeIndex:
  "activeIndex (setActiveSlide index f b p)
     = js_rem (index + int (length (slides p))) (int (length (slides p)))"
  by (simp add: setActiveSlide_def Let_def setActiveSlide_mark_fields
      closeTimelineJobModal_frame focus_trigger_frame split: option.split)

lemma setActiveSlide_slides:
  "slides (setActiveSlide index f b p)
     = slides_marked (js_rem (index + int (length (slides p))) (int (length (slides p))))
         (length (slides p)) (slides p)"
  by (simp add: setActiveSlide_def Let_def setActiveSlide_mark_fields
      closeTimelineJobModal_frame focus_trigger_frame split: option.split)

lemma setActiveSlide_controls:
  "controls (setActiveSlide index f b p) c
     = controls_cleared (js_rem (index + int (length (slides p))) (int (length (slides p))))
         (length (slides p)) (slides p) (controls p) c
   \<or> closed_no_animation (controls (setActiveSlide index f b p) c)"
proof -
  let ?a = "js_rem (index + int (length (slides p))) (int (length (slides p)))"
  let ?p5 = "setActiveSlide_mark ?a b p"
  have "controls (setActiveSlide index f b p) c = controls ?p5 c
        \<or> controls (setActiveSlide index f b p) c = controls (closeTimelineJobModal False ?p5) c"
    by (simp add: setActiveSlide_def Let_def focus_trigger_frame split: option.split)
  then show ?thesis
    using closeTimelineJobModal_controls [of False ?p5 c]
    by (auto simp: setActiveSlide_mark_fields)
qed

lemma setActiveSlide_focused:
  "focused (setActiveSlide index f b p)
     = (if f \<and> js_index (triggers p)
                  (js_rem (index + int (length (slides p))) (int (length (slides p)))) \<noteq> None
        then Some (FocusTrigger
                     (nat (js_rem (index + int (length (slides p))) (int (length (slides p))))))
        else focused p)"
  by (simp add: setActiveSlide_def Let_def setActiveSlide_mark_fields closeTimelineJobModal_frame
      closeTimelineJobModal_no_focus focus_trigger_focused js_index_None_iff
      split: option.split)

lemma setActiveSlide_closes_modal:
  assumes "modal p = Some m" and "activeTimelineModalCheckbox p = Some c"
    and "\<not> slide_contains p
             (js_rem (index + int (length (slides p))) (int (length (slides p)))) c"
  shows "modal (setActiveSlide index f b p)
           = Some (m\<lparr>modal_is_open := False, modal_aria_hidden := ''true''\<rparr>)"
    and "body_timeline_modal_open (setActiveSlide index f b p) = False"
    and "activeTimelineModalCheckbox (setActiveSlide index f b p) = None"
    and "closed_no_animation (controls (setActiveSlide index f b p) c)"
proof -
  let ?a = "js_rem (index + int (length (slides p))) (int (length (slides p)))"
  let ?p5 = "setActiveSlide_mark ?a b p"
  have m5: "modal ?p5 = Some m" and o5: "activeTimelineModalCheckbox ?p5 = Some c"
    using assms by (simp_all add: setActiveSlide_mark_fields)
  have s5: "\<not> slide_contains ?p5 ?a c"
    using assms by (simp add: slide_contains_mark)
  note cl = closeTimelineJobModal_owner [OF m5 o5, of False]
  show "modal (setActiveSlide index f b p)
           = Some (m\<lparr>modal_is_open := False, modal_aria_hidden := ''true''\<rparr>)"
    using o5 s5 cl(1)
    by (simp add: setActiveSlide_def Let_def focus_trigger_frame split: option.split)
  show "body_timeline_modal_open (setActiveSlide index f b p) = False"
    using o5 s5 cl(2)
    by (simp add: setActiveSlide_def Let_def focus_trigger_frame split: option.split)
  show "activeTimelineModalCheckbox (setActiveSlide index f b p) = None"
    using o5 s5 cl(3)
    by (simp add: setActiveSlide_def Let_def focus_trigger_frame split: option.split)
  show "closed_no_animation (controls (setActiveSlide index f b p) c)"
    using o5 s5 cl(4)
    by (simp add: setActiveSlide_def Let_def focus_trigger_frame split: option.split)
qed

subsection \<open>The active index\<close>

lemma js_rem_nonneg: "0 \<le> a \<Longrightarrow> js_rem a n = a mod \<bar>n\<bar>"
  by (cases "a = 0") (simp_all add: js_rem_def)

lemma js_rem_twice:
  assumes "0 < n"
  shows "js_rem (js_rem i n + n) n = i mod n"
proof (cases "0 \<le> i")
  case True
  then have "js_rem i n = i mod n"
    using assms by (simp add: js_rem_nonneg)
  moreover have "0 \<le> i mod n + n"
    using assms by (simp add: add_nonneg_nonneg)
  ultimately show ?thesis
    using assms by (simp add: js_rem_nonneg)
next
  case False
  then have neg: "i < 0" by simp
  then have r: "js_rem i n = - ((- i) mod n)"
    using assms by (simp add: js_rem_def)
  have lt: "(- i) mod n < n" and ge: "0 \<le> (- i) mod n"
    using assms by simp_all
  then have "0 \<le> - ((- i) mod n) + n" by simp
  then have "js_rem (js_rem i n + n) n = (- ((- i) mod n) + n) mod n"
    using assms r by (simp add: js_rem_nonneg)
  also have "\<dots> = (- ((- i) mod n)) mod n"
    by simp
  also have "\<dots> = i mod n"
    by (simp add: mod_minus_eq)
  finally show ?thesis .
qed

lemma js_rem_shifted:
  assumes "0 < n" and "- n \<le> i"
  shows "js_rem (i + n) n = i mod n"
  using assms by (simp add: js_rem_nonneg)

text \<open>
  C1, as the code has it. For every slide count \<open>N > 0\<close> and every integer index
  \<open>i \<ge> -N\<close>, \<^verbatim>\<open>setActiveSlide(i)\<close> sets the active index to
  \<^verbatim>\<open>((i % N) + N) % N\<close>, which lies in \<open>[0, N)\<close>. The code computes
  \<^verbatim>\<open>(i + N) % N\<close>, one wrap only: its callers pass an index between \<open>-1\<close> and \<open>N\<close>.
\<close>

theorem C1_setActiveSlide_normalizes_from_minus_N:
  assumes "slides p \<noteq> []" and "- int (length (slides p)) \<le> i"
  shows "activeIndex (setActiveSlide i shouldFocusTrigger scrollBehavior p)
           = js_rem (js_rem i (int (length (slides p))) + int (length (slides p)))
               (int (length (slides p)))
         \<and> 0 \<le> activeIndex (setActiveSlide i shouldFocusTrigger scrollBehavior p)
         \<and> activeIndex (setActiveSlide i shouldFocusTrigger scrollBehavior p)
             < int (length (slides p))"
proof -
  let ?n = "int (length (slides p))"
  from assms(1) have n: "0 < ?n" by simp
  have "activeIndex (setActiveSlide i shouldFocusTrigger scrollBehavior p) = i mod ?n"
    using js_rem_shifted [OF n assms(2)] by (simp add: setActiveSlide_activeIndex)
  moreover have "js_rem (js_rem i ?n + ?n) ?n = i mod ?n"
    by (rule js_rem_twice [OF n])
  moreover have "0 \<le> i mod ?n" and "i mod ?n < ?n"
    using n by simp_all
  ultimately show ?thesis by simp
qed

lemma length_demo_slides: "length (slides demo_page) = 3"
  by (simp add: demo_page_def demo_slides_def)

text \<open>The theorem on the page with three slides, at index \<open>-1\<close>: the last slide.\<close>

theorem C1_setActiveSlide_witness:
  "slides demo_page \<noteq> [] \<and> - int (length (slides demo_page)) \<le> - 1
   \<and> activeIndex (setActiveSlide (- 1) False ''smooth'' demo_page) = 2"
proof -
  have h1: "slides demo_page \<noteq> []"
    by (simp add: demo_page_def demo_slides_def)
  have h2: "- int (length (slides demo_page)) \<le> - 1"
    by (simp add: length_demo_slides)
  from C1_setActiveSlide_normalizes_from_minus_N [OF h1 h2, of False "''smooth''"]
  have "activeIndex (setActiveSlide (- 1) False ''smooth'' demo_page)
          = js_rem (js_rem (- 1) 3 + 3) 3"
    by (simp add: length_demo_slides)
  then show ?thesis
    using h1 h2 by (simp add: js_rem_def)
qed

text \<open>
  C1 as stated fails below \<open>-N\<close>: with three slides, \<^verbatim>\<open>setActiveSlide(-5)\<close> leaves the
  active index at \<open>-2\<close>, where \<^verbatim>\<open>((-5 % 3) + 3) % 3\<close> is 1.
\<close>

theorem C1_setActiveSlide_counterexample:
  "activeIndex (setActiveSlide (- 5) False ''smooth'' demo_page) = - 2
   \<and> js_rem (js_rem (- 5) (int (length (slides demo_page))) + int (length (slides demo_page)))
        (int (length (slides demo_page))) = 1"
  by (simp add: setActiveSlide_activeIndex length_demo_slides js_rem_def)

text \<open>
  The pager starts with an active index in \<open>[0, N)\<close>, and every caller of
  \<^verbatim>\<open>setActiveSlide\<close> passes an index of at least \<open>-1\<close> when the active index is in
  range: the pager keeps it in \<open>[0, N)\<close>.
\<close>

lemma js_findIndex_bounds: "- 1 \<le> js_findIndex P xs \<and> js_findIndex P xs < int (length xs)"
  by (induction xs) (auto simp: Let_def)

lemma initial_activeIndex_in_range:
  "ss \<noteq> [] \<Longrightarrow> 0 \<le> initial_activeIndex ss \<and> initial_activeIndex ss < int (length ss)"
  using js_findIndex_bounds [of slide_is_active ss]
  by (auto simp: initial_activeIndex_def Let_def max_def)

lemma pager_handle_keeps_index_in_range:
  assumes "slides p \<noteq> []"
    and "0 \<le> activeIndex p" and "activeIndex p < int (length (slides p))"
  shows "0 \<le> activeIndex (pager_handle e p)
         \<and> activeIndex (pager_handle e p) < int (length (slides p))"
proof -
  let ?n = "int (length (slides p))"
  from assms(1) have n: "0 < ?n" by simp
  have ge: "- ?n \<le> pager_event_index p e"
    using assms n by (cases e) (simp_all add: pager_event_index_def)
  have "activeIndex (pager_handle e p) = js_rem (pager_event_index p e + ?n) ?n"
    by (cases e) (simp_all add: pager_handle_def pager_event_index_def setActiveSlide_activeIndex)
  also have "\<dots> = pager_event_index p e mod ?n"
    by (rule js_rem_shifted [OF n ge])
  finally show ?thesis
    using n by simp
qed

subsection \<open>Expand controls of the slides that are not active\<close>

lemma setActiveSlide_inactive_closed:
  assumes "j < length (slides p)"
    and "int j \<noteq> activeIndex (setActiveSlide index f b p)"
    and "c \<in> set (slide_controls (slides p ! j))"
  shows "closed_no_animation (controls (setActiveSlide index f b p) c)"
proof -
  let ?a = "js_rem (index + int (length (slides p))) (int (length (slides p)))"
  from assms have "in_inactive_slide ?a (length (slides p)) (slides p) c"
    by (auto simp: in_inactive_slide_def setActiveSlide_activeIndex)
  then have "closed_no_animation
               (controls_cleared ?a (length (slides p)) (slides p) (controls p) c)"
    by (simp add: controls_cleared_def plus_state_closed)
  then show ?thesis
    using setActiveSlide_controls [of index f b p c] by auto
qed

text \<open>
  C5. After every \<^verbatim>\<open>setActiveSlide\<close> call, every expand control of a slide other than
  the new active slide is in the closed state with no animation; and if the detail modal
  was open for a control that the new active slide does not contain, the modal is closed,
  its owner is cleared and reset, and the focus is not given back to that control: it is
  left where it was, or moved to the new trigger when the caller asks for that. The slides
  keep their controls.
\<close>

theorem C5_setActiveSlide_clears_inactive_slides:
  "(\<forall>j < length (slides (setActiveSlide index f b p)).
      int j \<noteq> activeIndex (setActiveSlide index f b p) \<longrightarrow>
      (\<forall>c \<in> set (slide_controls (slides (setActiveSlide index f b p) ! j)).
         closed_no_animation (controls (setActiveSlide index f b p) c)))
   \<and> (\<forall>m c. modal p = Some m \<and> activeTimelineModalCheckbox p = Some c
            \<and> \<not> slide_contains (setActiveSlide index f b p)
                   (activeIndex (setActiveSlide index f b p)) c \<longrightarrow>
          modal (setActiveSlide index f b p)
            = Some (m\<lparr>modal_is_open := False, modal_aria_hidden := ''true''\<rparr>)
          \<and> body_timeline_modal_open (setActiveSlide index f b p) = False
          \<and> activeTimelineModalCheckbox (setActiveSlide index f b p) = None
          \<and> closed_no_animation (controls (setActiveSlide index f b p) c))
   \<and> focused (setActiveSlide index f b p)
       = (if f \<and> js_index (triggers p) (activeIndex (setActiveSlide index f b p)) \<noteq> None
          then Some (FocusTrigger (nat (activeIndex (setActiveSlide index f b p))))
          else focused p)
   \<and> map slide_controls (slides (setActiveSlide index f b p)) = map slide_controls (slides p)"
proof -
  let ?p' = "setActiveSlide index f b p"
  let ?a = "js_rem (index + int (length (slides p))) (int (length (slides p)))"
  have a: "activeIndex ?p' = ?a"
    by (rule setActiveSlide_activeIndex)
  have len: "length (slides ?p') = length (slides p)"
    by (simp add: setActiveSlide_slides)
  have sc: "slide_controls (slides ?p' ! j) = slide_controls (slides p ! j)"
    if "j < length (slides p)" for j
    using that by (simp add: setActiveSlide_slides slide_controls_nth_marked)
  have inactive: "\<forall>j < length (slides ?p'). int j \<noteq> activeIndex ?p' \<longrightarrow>
      (\<forall>c \<in> set (slide_controls (slides ?p' ! j)). closed_no_animation (controls ?p' c))"
    using setActiveSlide_inactive_closed [of _ p index f b] sc len by auto
  have contains: "slide_contains ?p' i c = slide_contains p i c" for i c
    by (rule slide_contains_marked [of _ ?a "length (slides p)"]) (rule setActiveSlide_slides)
  have closes: "\<forall>m c. modal p = Some m \<and> activeTimelineModalCheckbox p = Some c
            \<and> \<not> slide_contains ?p' (activeIndex ?p') c \<longrightarrow>
          modal ?p' = Some (m\<lparr>modal_is_open := False, modal_aria_hidden := ''true''\<rparr>)
          \<and> body_timeline_modal_open ?p' = False
          \<and> activeTimelineModalCheckbox ?p' = None
          \<and> closed_no_animation (controls ?p' c)"
    using setActiveSlide_closes_modal [of p _ _ index f b] by (simp add: contains a)
  have foc: "focused ?p'
       = (if f \<and> js_index (triggers p) (activeIndex ?p') \<noteq> None
          then Some (FocusTrigger (nat (activeIndex ?p'))) else focused p)"
    by (simp only: a setActiveSlide_focused)
  have keep: "map slide_controls (slides ?p') = map slide_controls (slides p)"
    by (rule nth_equalityI) (simp_all add: len sc)
  show ?thesis
    using inactive closes foc keep by blast
qed

text \<open>The theorem on the page where the modal is open for the first entry, at \<open>next\<close>.\<close>

theorem C5_setActiveSlide_witness:
  "modal demo_page_open = Some \<lparr>modal_is_open = True, modal_aria_hidden = ''false''\<rparr>
   \<and> activeTimelineModalCheckbox demo_page_open = Some 0
   \<and> activeIndex (setActiveSlide 1 False ''smooth'' demo_page_open) = 1
   \<and> map slide_controls (slides (setActiveSlide 1 False ''smooth'' demo_page_open))
       = [[0], [1], [2]]
   \<and> closed_no_animation (controls (setActiveSlide 1 False ''smooth'' demo_page_open) 2)
   \<and> modal (setActiveSlide 1 False ''smooth'' demo_page_open)
       = Some \<lparr>modal_is_open = False, modal_aria_hidden = ''true''\<rparr>
   \<and> activeTimelineModalCheckbox (setActiveSlide 1 False ''smooth'' demo_page_open) = None
   \<and> closed_no_animation (controls (setActiveSlide 1 False ''smooth'' demo_page_open) 0)
   \<and> focused (setActiveSlide 1 False ''smooth'' demo_page_open) = None"
proof -
  let ?p' = "setActiveSlide 1 False ''smooth'' demo_page_open"
  note T = C5_setActiveSlide_clears_inactive_slides [of 1 False "''smooth''" demo_page_open]
  have len: "length (slides demo_page_open) = 3"
    by (simp add: demo_page_open_def demo_page_def demo_slides_def)
  have a: "activeIndex ?p' = 1"
    by (simp add: setActiveSlide_activeIndex len js_rem_def)
  have m: "modal demo_page_open = Some \<lparr>modal_is_open = True, modal_aria_hidden = ''false''\<rparr>"
    and ow: "activeTimelineModalCheckbox demo_page_open = Some 0"
    and fo: "focused demo_page_open = None"
    by (simp_all add: demo_page_open_def demo_page_def)
  from T have "map slide_controls (slides ?p') = map slide_controls (slides demo_page_open)"
    by blast
  then have sc: "map slide_controls (slides ?p') = [[0], [1], [2]]"
    by (simp add: demo_page_open_def demo_page_def demo_slides_def)
  then have l': "length (slides ?p') = 3"
    using length_map [of slide_controls "slides ?p'"] by simp
  have "slide_controls (slides ?p' ! 2) = map slide_controls (slides ?p') ! 2"
    using l' by simp
  then have c2: "slide_controls (slides ?p' ! 2) = [2]"
    by (simp add: sc)
  from T have "\<forall>j < length (slides ?p'). int j \<noteq> activeIndex ?p' \<longrightarrow>
      (\<forall>c \<in> set (slide_controls (slides ?p' ! j)). closed_no_animation (controls ?p' c))"
    by blast
  then have t1: "closed_no_animation (controls ?p' 2)"
    using l' a c2 by (auto dest!: spec [of _ 2])
  have eq: "slide_contains ?p' 1 0 = slide_contains demo_page_open 1 0"
    by (rule slide_contains_marked) (rule setActiveSlide_slides)
  have "\<not> slide_contains demo_page_open 1 0"
    by (simp add: slide_contains_def js_index_def demo_page_open_def demo_page_def
        demo_slides_def)
  then have nc: "\<not> slide_contains ?p' (activeIndex ?p') 0"
    by (simp add: a eq)
  from T m ow nc have t2: "modal ?p' = Some \<lparr>modal_is_open = False, modal_aria_hidden = ''true''\<rparr>"
    and t3: "activeTimelineModalCheckbox ?p' = None"
    and t4: "closed_no_animation (controls ?p' 0)"
    by auto
  from T have "focused ?p'
       = (if False \<and> js_index (triggers demo_page_open) (activeIndex ?p') \<noteq> None
          then Some (FocusTrigger (nat (activeIndex ?p'))) else focused demo_page_open)"
    by blast
  then have t5: "focused ?p' = None"
    by (simp add: fo)
  show ?thesis
    using m ow a sc t1 t2 t3 t4 t5 by simp
qed

subsection \<open>The detail modal and its owner\<close>

lemma js_trim_empty_iff: "js_trim s = [] \<longleftrightarrow> list_all js_whitespace s"
proof
  assume "js_trim s = []"
  then have all: "\<forall>x \<in> set (dropWhile js_whitespace s). js_whitespace x"
    by (simp add: js_trim_def dropWhile_eq_Nil_conv)
  have "dropWhile js_whitespace s = []"
  proof (rule ccontr)
    assume ne: "dropWhile js_whitespace s \<noteq> []"
    then have "\<not> js_whitespace (hd (dropWhile js_whitespace s))"
      by (rule hd_dropWhile)
    moreover have "hd (dropWhile js_whitespace s) \<in> set (dropWhile js_whitespace s)"
      using ne by simp
    ultimately show False using all by blast
  qed
  then show "list_all js_whitespace s"
    by (simp add: dropWhile_eq_Nil_conv list_all_iff)
next
  assume "list_all js_whitespace s"
  then have d: "dropWhile js_whitespace s = []"
    by (simp add: dropWhile_eq_Nil_conv list_all_iff)
  show "js_trim s = []"
    by (simp only: js_trim_def d rev.simps dropWhile.simps)
qed

lemma hasDescription_iff: "hasDescription e \<longleftrightarrow> \<not> description_blank e"
  by (simp add: hasDescription_def description_blank_def js_trim_empty_iff [symmetric])

lemma openTimelineJobModal_fields:
  assumes "modal p = Some m" and "modal_title p \<noteq> None" and "modal_meta p \<noteq> None"
    and "modal_description p \<noteq> None"
  shows "controls (openTimelineJobModal e b p)
           = (case activeTimelineModalCheckbox p of
                None \<Rightarrow> controls p
              | Some a \<Rightarrow> if a \<noteq> b
                          then (controls p)(a := plus_state (controls p a) False False)
                          else controls p)
             (b := plus_state
                     ((case activeTimelineModalCheckbox p of
                         None \<Rightarrow> controls p
                       | Some a \<Rightarrow> if a \<noteq> b
                                   then (controls p)(a := plus_state (controls p a) False False)
                                   else controls p) b) True True)"
    and "activeTimelineModalCheckbox (openTimelineJobModal e b p) = Some b"
    and "modal (openTimelineJobModal e b p)
           = Some (m\<lparr>modal_is_open := True, modal_aria_hidden := ''false''\<rparr>)"
    and "body_timeline_modal_open (openTimelineJobModal e b p) = True"
  using assms
  by (auto simp: openTimelineJobModal_def Let_def setTimelinePlusState_def split: option.split)

text \<open>
  C4. With the detail modal open for control \<open>a\<close>, checking another control \<open>b\<close> whose
  entry has a non-blank description opens the modal for \<open>b\<close>: \<open>a\<close> is first put in the
  closed state with no animation, \<open>b\<close> is set open (animated), \<open>b\<close> is recorded as the one
  owner, and no other control changes. If \<open>a\<close> was the only control open before the user
  checked \<open>b\<close>, then \<open>b\<close> is the only control open afterwards.
\<close>

theorem C4_opening_for_b_closes_a:
  assumes "modal p = Some m" and "modal_title p \<noteq> None" and "modal_meta p \<noteq> None"
    and "modal_description p \<noteq> None"
    and "activeTimelineModalCheckbox p = Some a" and "a \<noteq> b"
    and "closest_slide p b = Some slide"
    and "js_parseInt (case slide_data_index slide of None \<Rightarrow> js_str ''-1'' | Some s \<Rightarrow> s) 10
           = Some i"
    and "js_index (renderedTimelineEntries p) i = Some e"
    and "\<not> description_blank e"
    and "checked (controls p b)"
  shows "timelinePlusGoXHandler b p = openTimelineJobModal e b p
         \<and> closed_no_animation (controls (timelinePlusGoXHandler b p) a)
         \<and> open_animated (controls (timelinePlusGoXHandler b p) b)
         \<and> activeTimelineModalCheckbox (timelinePlusGoXHandler b p) = Some b
         \<and> modal (timelinePlusGoXHandler b p)
             = Some (m\<lparr>modal_is_open := True, modal_aria_hidden := ''false''\<rparr>)
         \<and> (\<forall>c. c \<noteq> a \<and> c \<noteq> b \<longrightarrow>
                controls (timelinePlusGoXHandler b p) c = controls p c)
         \<and> ((\<forall>c. c \<noteq> b \<and> checked (controls p c) \<longrightarrow> c = a) \<longrightarrow>
              (\<forall>c. checked (controls (timelinePlusGoXHandler b p) c) \<longleftrightarrow> c = b))"
proof -
  let ?p' = "openTimelineJobModal e b p"
  have h: "timelinePlusGoXHandler b p = ?p'"
    using assms(7-11) by (simp add: timelinePlusGoXHandler_def hasDescription_iff)
  note f = openTimelineJobModal_fields [OF assms(1-4), of e b]
  have ctl: "controls ?p' c
      = (if c = b then plus_state (controls p b) True True
         else if c = a then plus_state (controls p a) False False
         else controls p c)" for c
    using assms(5,6) by (simp add: f(1))
  have ca: "closed_no_animation (controls ?p' a)"
    using assms(6) by (simp add: ctl plus_state_closed)
  have cb: "open_animated (controls ?p' b)"
    by (simp add: ctl plus_state_open)
  have others: "\<forall>c. c \<noteq> a \<and> c \<noteq> b \<longrightarrow> controls ?p' c = controls p c"
    by (simp add: ctl)
  have only: "(\<forall>c. c \<noteq> b \<and> checked (controls p c) \<longrightarrow> c = a) \<longrightarrow>
              (\<forall>c. checked (controls ?p' c) \<longleftrightarrow> c = b)"
    by (auto simp: ctl plus_state_def)
  show ?thesis
    using h ca cb f(2) f(3) others only by simp
qed

text \<open>
  The theorem on the page where the modal is open for the first entry and the user has
  checked the control of the third.
\<close>

theorem C4_opening_witness:
  "activeTimelineModalCheckbox demo_page_open_toggled = Some 0
   \<and> checked (controls demo_page_open_toggled 2)
   \<and> closed_no_animation (controls (timelinePlusGoXHandler 2 demo_page_open_toggled) 0)
   \<and> open_animated (controls (timelinePlusGoXHandler 2 demo_page_open_toggled) 2)
   \<and> activeTimelineModalCheckbox (timelinePlusGoXHandler 2 demo_page_open_toggled) = Some 2
   \<and> (\<forall>c. checked (controls (timelinePlusGoXHandler 2 demo_page_open_toggled) c) \<longleftrightarrow> c = 2)"
proof -
  let ?p = "demo_page_open_toggled"
  have h1: "modal ?p = Some \<lparr>modal_is_open = True, modal_aria_hidden = ''false''\<rparr>"
    and h2: "modal_title ?p \<noteq> None" and h3: "modal_meta ?p \<noteq> None"
    and h4: "modal_description ?p \<noteq> None"
    and h5: "activeTimelineModalCheckbox ?p = Some 0"
    by (simp_all add: demo_page_open_toggled_def demo_page_open_def demo_page_def)
  have h6: "(0::nat) \<noteq> 2" by simp
  have h7: "closest_slide ?p 2 = Some (demo_slides ! 2)"
    by (simp add: closest_slide_def demo_page_open_toggled_def demo_page_open_def demo_page_def
        demo_slides_def)
  have h8: "js_parseInt (case slide_data_index (demo_slides ! 2) of
                           None \<Rightarrow> js_str ''-1'' | Some s \<Rightarrow> s) 10 = Some 2"
    by (simp add: demo_slides_def js_parseInt_def js_trimStart_def js_whitespace_def js_str_def
        radix_digit_def digit_value_def digits_value_def Let_def)
  have h9: "js_index (renderedTimelineEntries ?p) 2 = Some (demo_entries ! 2)"
    by (simp add: js_index_def demo_page_open_toggled_def demo_page_open_def demo_page_def
        demo_entries_def)
  have h10: "\<not> description_blank (demo_entries ! 2)"
    by (simp add: description_blank_def demo_entries_def or_empty_def js_str_def
        js_whitespace_def)
  have h11: "checked (controls ?p 2)"
    by (simp add: demo_page_open_toggled_def)
  have pre: "\<forall>c. c \<noteq> 2 \<and> checked (controls ?p c) \<longrightarrow> c = 0"
    by (simp add: demo_page_open_toggled_def demo_page_open_def demo_page_def demo_control_def
        plus_state_def)
  note T = C4_opening_for_b_closes_a [OF h1 h2 h3 h4 h5 h6 h7 h8 h9 h10 h11]
  from T have t1: "closed_no_animation (controls (timelinePlusGoXHandler 2 ?p) 0)"
    and t2: "open_animated (controls (timelinePlusGoXHandler 2 ?p) 2)"
    and t3: "activeTimelineModalCheckbox (timelinePlusGoXHandler 2 ?p) = Some 2"
    by blast+
  from T pre have t4: "\<forall>c. checked (controls (timelinePlusGoXHandler 2 ?p) c) \<longleftrightarrow> c = 2"
    by blast
  show ?thesis
    using h5 h11 t1 t2 t3 t4 by blast
qed

subsection \<open>Entries with a blank description\<close>

text \<open>
  C6. Checking the expand control of a timeline entry whose description is blank never
  opens the detail modal: the handler puts the control back in the closed state with no
  animation and changes nothing else (the modal, its owner, the other controls, the pager
  and the focus are as before).
\<close>

theorem C6_blank_description_snaps_closed:
  assumes "closest_slide p c = Some slide"
    and "js_parseInt (case slide_data_index slide of None \<Rightarrow> js_str ''-1'' | Some s \<Rightarrow> s) 10
           = Some i"
    and "js_index (renderedTimelineEntries p) i = Some e"
    and "description_blank e"
  shows "timelinePlusGoXHandler c p
           = p\<lparr>controls := (controls p)(c := plus_state (controls p c) False False)\<rparr>
         \<and> closed_no_animation (controls (timelinePlusGoXHandler c p) c)
         \<and> modal (timelinePlusGoXHandler c p) = modal p
         \<and> body_timeline_modal_open (timelinePlusGoXHandler c p) = body_timeline_modal_open p
         \<and> activeTimelineModalCheckbox (timelinePlusGoXHandler c p)
             = activeTimelineModalCheckbox p"
proof -
  have "timelinePlusGoXHandler c p = setTimelinePlusState c False False p"
    using assms by (simp add: timelinePlusGoXHandler_def hasDescription_iff)
  then show ?thesis
    by (simp add: setTimelinePlusState_def plus_state_closed)
qed

text \<open>
  The theorem on the page where the user has checked the control of the second entry, whose
  description is two spaces.
\<close>

theorem C6_blank_description_witness:
  "checked (controls demo_page_toggled 1)
   \<and> description_blank (demo_entries ! 1)
   \<and> closed_no_animation (controls (timelinePlusGoXHandler 1 demo_page_toggled) 1)
   \<and> modal (timelinePlusGoXHandler 1 demo_page_toggled)
       = Some \<lparr>modal_is_open = False, modal_aria_hidden = ''true''\<rparr>
   \<and> activeTimelineModalCheckbox (timelinePlusGoXHandler 1 demo_page_toggled) = None"
proof -
  let ?p = "demo_page_toggled"
  have h1: "closest_slide ?p 1 = Some (demo_slides ! 1)"
    by (simp add: closest_slide_def demo_page_toggled_def demo_page_def demo_slides_def)
  have h2: "js_parseInt (case slide_data_index (demo_slides ! 1) of
                           None \<Rightarrow> js_str ''-1'' | Some s \<Rightarrow> s) 10 = Some 1"
    by (simp add: demo_slides_def js_parseInt_def js_trimStart_def js_whitespace_def js_str_def
        radix_digit_def digit_value_def digits_value_def Let_def)
  have h3: "js_index (renderedTimelineEntries ?p) 1 = Some (demo_entries ! 1)"
    by (simp add: js_index_def demo_page_toggled_def demo_page_def demo_entries_def)
  have h4: "description_blank (demo_entries ! 1)"
    by (simp add: description_blank_def demo_entries_def or_empty_def js_str_def
        js_whitespace_def)
  have c: "checked (controls ?p 1)"
    by (simp add: demo_page_toggled_def)
  have m: "modal ?p = Some \<lparr>modal_is_open = False, modal_aria_hidden = ''true''\<rparr>"
    and ow: "activeTimelineModalCheckbox ?p = None"
    by (simp_all add: demo_page_toggled_def demo_page_def)
  note T = C6_blank_description_snaps_closed [OF h1 h2 h3 h4]
  from T have t1: "closed_no_animation (controls (timelinePlusGoXHandler 1 ?p) 1)"
    and t2: "modal (timelinePlusGoXHandler 1 ?p) = modal ?p"
    and t3: "activeTimelineModalCheckbox (timelinePlusGoXHandler 1 ?p)
               = activeTimelineModalCheckbox ?p"
    by blast+
  show ?thesis
    using c h4 t1 t2 t3 m ow by simp
qed

subsection \<open>Colour parsing\<close>

lemma hex_digit_not_special:
  assumes "is_hex_digit c"
  shows "\<not> js_whitespace c" and "c \<noteq> 0x2B" and "c \<noteq> 0x2D" and "c \<noteq> 0x78" and "c \<noteq> 0x58"
  using assms by (auto simp: is_hex_digit_def js_whitespace_def)

lemma unat_minus_uint: "k \<le> uint (c::jschar) \<Longrightarrow> 0 \<le> k \<Longrightarrow> unat c - nat k = nat (uint c - k)"
  by (simp add: nat_diff_distrib flip: nat_uint_eq)

lemma hex_digit_value:
  assumes "is_hex_digit c"
  shows "digit_value c = Some (nat (hex_value c))" and "0 \<le> hex_value c" and "hex_value c < 16"
proof -
  from assms consider "0x30 \<le> c \<and> c \<le> 0x39" | "0x61 \<le> c \<and> c \<le> 0x66" | "0x41 \<le> c \<and> c \<le> 0x46"
    by (auto simp: is_hex_digit_def)
  then have "digit_value c = Some (nat (hex_value c)) \<and> 0 \<le> hex_value c \<and> hex_value c < 16"
  proof cases
    case 1
    then have u: "48 \<le> uint c" "uint c \<le> 57"
      by (simp_all add: word_le_def)
    from unat_minus_uint [of 48 c] u have "unat c - 48 = nat (uint c - 48)" by simp
    with 1 u show ?thesis
      by (simp add: digit_value_def hex_value_def)
  next
    case 2
    then have u: "97 \<le> uint c" "uint c \<le> 102"
      by (simp_all add: word_le_def)
    then have n: "\<not> (0x30 \<le> c \<and> c \<le> 0x39)" "c \<le> 0x7A"
      by (simp_all add: word_le_def)
    from unat_minus_uint [of 97 c] u have "unat c - 97 = nat (uint c - 97)" by simp
    with 2 u n show ?thesis
      by (auto simp: digit_value_def hex_value_def)
  next
    case 3
    then have u: "65 \<le> uint c" "uint c \<le> 70"
      by (simp_all add: word_le_def)
    then have n: "\<not> (0x30 \<le> c \<and> c \<le> 0x39)" "\<not> (0x61 \<le> c \<and> c \<le> 0x7A)"
      "\<not> (0x61 \<le> c \<and> c \<le> 0x66)" "c \<le> 0x5A"
      by (simp_all add: word_le_def)
    from unat_minus_uint [of 65 c] u have "unat c - 65 = nat (uint c - 65)" by simp
    with 3 u n show ?thesis
      by (auto simp: digit_value_def hex_value_def)
  qed
  then show "digit_value c = Some (nat (hex_value c))" and "0 \<le> hex_value c"
    and "hex_value c < 16"
    by simp_all
qed

lemma parseInt16_hex_pair:
  assumes "is_hex_digit hi" and "is_hex_digit lo"
  shows "parseInt16 [hi, lo] = hex_pair hi lo"
proof -
  note a = hex_digit_not_special [OF assms(1)] hex_digit_value [OF assms(1)]
  note b = hex_digit_not_special [OF assms(2)] hex_digit_value [OF assms(2)]
  have r: "radix_digit 16 hi" "radix_digit 16 lo"
    using a(6,8) b(6,8) by (simp_all add: radix_digit_def)
  have "js_parseInt [hi, lo] 16 = Some (16 * hex_value hi + hex_value lo)"
    using a b r
    by (simp add: js_parseInt_def js_trimStart_def digits_value_def Let_def)
  then show ?thesis
    by (simp add: parseInt16_def hex_pair_def)
qed

text \<open>
  Valid hexadecimal colours decode to the reference decoder's channels: three digits
  (each doubled), six digits, and eight digits (the last two are the alpha channel, divided
  by 255).
\<close>

lemma js_trim_hex: 
  assumes "is_hex_digit (last (c # cs))"
  shows "js_trim (0x23 # c # cs) = 0x23 # c # cs"
proof -
  have h: "\<not> js_whitespace (0x23 :: jschar)"
    by (simp add: js_whitespace_def)
  have l: "\<not> js_whitespace (last (c # cs))"
    using assms by (rule hex_digit_not_special)
  have "rev (0x23 # c # cs) = last (c # cs) # rev (butlast (0x23 # c # cs))"
    by (metis append_butlast_last_id last_ConsR list.distinct(1) rev.simps(2) rev_rev_ident rev_singleton_conv rev_append append_Cons append_Nil)
  then have "dropWhile js_whitespace (rev (0x23 # c # cs)) = rev (0x23 # c # cs)"
    using l by simp
  then show ?thesis
    using h by (simp add: js_trim_def)
qed

lemma parseColor_hex3:
  assumes "is_hex_digit c1" and "is_hex_digit c2" and "is_hex_digit c3"
  shows "parseColor (Some [0x23, c1, c2, c3])
           = Some \<lparr>color_r = hex_pair c1 c1, color_g = hex_pair c2 c2,
                    color_b = hex_pair c3 c3, color_a = Num 1\<rparr>"
proof -
  have "js_trim [0x23, c1, c2, c3] = [0x23, c1, c2, c3]"
    using assms(3) by (intro js_trim_hex) simp
  then show ?thesis
    using assms
    by (simp add: parseColor_def parseHexColor_def or_empty_def startsWith_hash_def
        js_slice_from_def Let_def parseInt16_hex_pair)
qed

lemma parseColor_hex6:
  assumes "list_all is_hex_digit [c1, c2, c3, c4, c5, c6]"
  shows "parseColor (Some [0x23, c1, c2, c3, c4, c5, c6])
           = Some \<lparr>color_r = hex_pair c1 c2, color_g = hex_pair c3 c4,
                    color_b = hex_pair c5 c6, color_a = Num 1\<rparr>"
proof -
  have "js_trim [0x23, c1, c2, c3, c4, c5, c6] = [0x23, c1, c2, c3, c4, c5, c6]"
    using assms by (intro js_trim_hex) simp
  then show ?thesis
    using assms
    by (simp add: parseColor_def parseHexColor_def or_empty_def startsWith_hash_def
        js_slice_from_def js_slice_def Let_def parseInt16_hex_pair isNaN_def)
qed

lemma parseColor_hex8:
  assumes "list_all is_hex_digit [c1, c2, c3, c4, c5, c6, c7, c8]"
  shows "parseColor (Some [0x23, c1, c2, c3, c4, c5, c6, c7, c8])
           = Some \<lparr>color_r = hex_pair c1 c2, color_g = hex_pair c3 c4,
                    color_b = hex_pair c5 c6, color_a = div255 (hex_pair c7 c8)\<rparr>"
proof -
  have "js_trim [0x23, c1, c2, c3, c4, c5, c6, c7, c8] = [0x23, c1, c2, c3, c4, c5, c6, c7, c8]"
    using assms by (intro js_trim_hex) simp
  then show ?thesis
    using assms
    by (simp add: parseColor_def parseHexColor_def or_empty_def startsWith_hash_def
        js_slice_from_def js_slice_def Let_def parseInt16_hex_pair isNaN_def hex_pair_def
        div255_def)
qed

text \<open>
  \<^verbatim>\<open>parseHexColor\<close> looks at the length only: it returns \<^verbatim>\<open>null\<close> exactly when the
  trimmed string does not start with \<^verbatim>\<open>#\<close> or has not 3, 6 or 8 code units after it.
\<close>

lemma parseHexColor_None_iff:
  "parseHexColor s = None \<longleftrightarrow>
     \<not> startsWith_hash (js_trim s) \<or> length (js_trim s) - 1 \<notin> {3, 6, 8}"
  by (auto simp: parseHexColor_def Let_def js_slice_from_def)

text \<open>
  The pattern of \<^verbatim>\<open>parseRgbColor\<close> reads the runs of digits and dots and ignores what
  separates them.
\<close>

lemma parseColor_rgb_any_separator:
  "parseColor (Some (js_str ''rgb(1/2/3)''))
     = Some \<lparr>color_r = Num 1, color_g = Num 2, color_b = Num 3, color_a = Num 1\<rparr>"
  by (simp add: parseColor_def parseHexColor_def parseRgbColor_def or_empty_def js_trim_def
      js_whitespace_def js_str_def startsWith_hash_def rgb_match_def ci_char_def Let_def
      number_runs_def digit_or_dot_def is_digit_def parseFloat_run_def decimal_number_def
      digits_value_def digit_value_def isNaN_def js_index_def)

text \<open>
  C3, where the code departs from it. \<^verbatim>\<open>"#zzz"\<close> is no hexadecimal colour and no
  \<^verbatim>\<open>rgb()\<close> form, and \<^verbatim>\<open>parseColor\<close> does not return \<^verbatim>\<open>null\<close> for it: it returns a
  colour whose three channels are NaN. \<^verbatim>\<open>parseRgbColor\<close> returns \<^verbatim>\<open>null\<close> when a channel
  is NaN, and \<^verbatim>\<open>parseHexColor\<close> replaces a NaN alpha by 1, but it does not look at the
  three colour channels.
\<close>

theorem C3_parseColor_non_hex_digits_not_null:
  "parseColor (Some (js_str ''#zzz''))
     = Some \<lparr>color_r = NaN, color_g = NaN, color_b = NaN, color_a = Num 1\<rparr>"
  by (simp add: parseColor_def parseHexColor_def or_empty_def js_trim_def js_whitespace_def
      js_str_def startsWith_hash_def js_slice_from_def parseInt16_def js_parseInt_def
      js_trimStart_def radix_digit_def digit_value_def Let_def)

subsection \<open>Cancellable waits\<close>

lemma waitForDelay_aborted:
  "waitForDelay d (Some True)
     = \<lparr>wait_promise = Settled (Rejected aborted_error), wait_timeout = None,
        wait_abort_listener = False\<rparr>"
  by (simp add: waitForDelay_def settle_def)

lemma waitForDelay_abort_during:
  "wait_deliver AbortDispatched (waitForDelay d (Some False))
     = \<lparr>wait_promise = Settled (Rejected aborted_error), wait_timeout = None,
        wait_abort_listener = False\<rparr>"
  by (simp add: waitForDelay_def wait_deliver_def settle_def)

lemma waitForDelay_timeout:
  "wait_deliver TimeoutFires (waitForDelay d (Some False))
     = \<lparr>wait_promise = Settled Resolved, wait_timeout = None, wait_abort_listener = False\<rparr>"
  by (simp add: waitForDelay_def wait_deliver_def settle_def)

lemma wait_settled_stays:
  "wait_timeout w = None \<Longrightarrow> \<not> wait_abort_listener w \<Longrightarrow> wait_deliver e w = w"
  by (cases e) (simp_all add: wait_deliver_def)

lemma typewriter_catch_aborted: "typewriter_catch aborted_error = []"
  by (simp add: typewriter_catch_def aborted_error_def)

text \<open>
  While the token is not signaled, the loop never leaves through its own checks: started or
  resumed after a resolved wait, it is suspended on a new pending wait that listens to the
  token (or the lines are empty and it throws a TypeError).
\<close>

lemma typing_from_not_aborted:
  "\<exists>point tw' d. typing_from render False j line count tw
                   = Suspended point tw' (waitForDelay d (Some False))"
  by (auto simp: typing_from_def)

lemma erasing_from_not_aborted:
  "\<exists>point tw' d. erasing_from render False line count tw
                   = Suspended point tw' (waitForDelay d (Some False))"
  by (auto simp: erasing_from_def)

lemma loop_head_not_aborted:
  "lines \<noteq> [] \<Longrightarrow>
   \<exists>point tw' d. loop_head render False j lines tw
                   = Suspended point tw' (waitForDelay d (Some False))"
  using typing_from_not_aborted by (simp add: loop_head_def)

lemma run_resume_not_aborted:
  assumes "lines \<noteq> []"
  shows "\<exists>point' tw' d. run_resume render False j lines point tw Resolved
                          = Suspended point' tw' (waitForDelay d (Some False))"
proof (cases point)
  case (AwaitTyping count)
  then show ?thesis
    using typing_from_not_aborted by (simp add: run_resume_def Let_def)
next
  case AwaitHold
  then show ?thesis
    using erasing_from_not_aborted by (simp add: run_resume_def Let_def)
next
  case (AwaitErase count)
  then show ?thesis
    using erasing_from_not_aborted by (simp add: run_resume_def Let_def)
next
  case AwaitBetweenLines
  then show ?thesis
    using loop_head_not_aborted [OF assms] by (simp add: run_resume_def Let_def)
qed

text \<open>
  C2, as the code has it. For every duration: a wait whose token is already signaled at
  the call rejects at once, with the error \<^verbatim>\<open>Hero typewriter aborted\<close> and no timeout
  set; a wait during which the token becomes signaled rejects early with the same error
  and clears its timeout (it resolves only when the timeout fires first). The loop
  suspended on such a wait does not catch the rejection: it leaves by the propagated
  error, whatever the loop was doing and whatever the token's state is read as, and the
  handler of \<^verbatim>\<open>startHeroTypewriter\<close> recognises that error by its message and logs
  nothing.
\<close>

theorem C2_wait_rejects_and_loop_exits_by_error:
  "waitForDelay d (Some True)
     = \<lparr>wait_promise = Settled (Rejected aborted_error), wait_timeout = None,
        wait_abort_listener = False\<rparr>
   \<and> wait_deliver AbortDispatched (waitForDelay d (Some False))
       = \<lparr>wait_promise = Settled (Rejected aborted_error), wait_timeout = None,
          wait_abort_listener = False\<rparr>
   \<and> wait_deliver TimeoutFires (waitForDelay d (Some False))
       = \<lparr>wait_promise = Settled Resolved, wait_timeout = None, wait_abort_listener = False\<rparr>
   \<and> run_deliver render aborted jitterMs lines AbortDispatched
         (Suspended point tw (waitForDelay d (Some False)))
       = Threw aborted_error tw
   \<and> console_errors
         (run_deliver render aborted jitterMs lines AbortDispatched
            (Suspended point tw (waitForDelay d (Some False))))
       = []"
proof -
  have run: "run_deliver render aborted jitterMs lines AbortDispatched
               (Suspended point tw (waitForDelay d (Some False)))
             = Threw aborted_error tw"
    by (simp add: run_deliver_def waitForDelay_abort_during run_resume_def)
  then have "console_errors
               (run_deliver render aborted jitterMs lines AbortDispatched
                  (Suspended point tw (waitForDelay d (Some False))))
             = []"
    by (simp add: console_errors_def typewriter_catch_aborted)
  with run show ?thesis
    by (simp add: waitForDelay_aborted waitForDelay_abort_during waitForDelay_timeout)
qed

text \<open>
  C2 as stated fails: a session typing \<^verbatim>\<open>Hi\<close> is suspended on its first typing wait
  (52 ms) when the token is signaled. The wait's promise is rejected, not resolved, and the
  run ends by throwing the error, not by returning.
\<close>

theorem C2_wait_counterexample:
  "runHeroTypewriter (\<lambda>s. s) False 0 [js_str ''Hi''] []
     = Suspended (AwaitTyping 1) \<lparr>lineIndex = 0, innerHTML = js_str ''H''\<rparr>
         (waitForDelay 52 (Some False))
   \<and> wait_promise (wait_deliver AbortDispatched (waitForDelay 52 (Some False)))
       = Settled (Rejected aborted_error)
   \<and> wait_promise (wait_deliver AbortDispatched (waitForDelay 52 (Some False)))
       \<noteq> Settled Resolved
   \<and> run_deliver (\<lambda>s. s) True 0 [js_str ''Hi''] AbortDispatched
         (runHeroTypewriter (\<lambda>s. s) False 0 [js_str ''Hi''] [])
       = Threw aborted_error \<lparr>lineIndex = 0, innerHTML = js_str ''H''\<rparr>
   \<and> run_deliver (\<lambda>s. s) True 0 [js_str ''Hi''] AbortDispatched
         (runHeroTypewriter (\<lambda>s. s) False 0 [js_str ''Hi''] [])
       \<noteq> Returned \<lparr>lineIndex = 0, innerHTML = js_str ''H''\<rparr>"
proof -
  have start: "runHeroTypewriter (\<lambda>s. s) False 0 [js_str ''Hi''] []
     = Suspended (AwaitTyping 1) \<lparr>lineIndex = 0, innerHTML = js_str ''H''\<rparr>
         (waitForDelay 52 (Some False))"
    by (simp add: runHeroTypewriter_def loop_head_def typing_from_def js_slice_def js_str_def
        HERO_TYPING_DELAY_MS_def)
  have run: "run_deliver (\<lambda>s. s) True 0 [js_str ''Hi''] AbortDispatched
         (Suspended (AwaitTyping 1) \<lparr>lineIndex = 0, innerHTML = js_str ''H''\<rparr>
            (waitForDelay 52 (Some False)))
       = Threw aborted_error \<lparr>lineIndex = 0, innerHTML = js_str ''H''\<rparr>"
    by (simp add: run_deliver_def waitForDelay_abort_during run_resume_def)
  show ?thesis
    using start run by (simp add: waitForDelay_abort_during)
qed


end
